theory Spec2Isabelle
  imports Complex_Main "HOL-Library.Sublist"
begin

section \<open>Strings\<close>

text \<open>
  Python strings are modelled as \<open>string\<close> (lists of 8-bit characters). \<open>str.lower\<close> is
  modelled on the ASCII letters, which is all the literals of the program use; the
  substring test \<open>needle in haystack\<close> is \<^const>\<open>sublist\<close>.
\<close>

definition lower_char :: "char \<Rightarrow> char" where
  "lower_char c =
     (case map_of (zip ''ABCDEFGHIJKLMNOPQRSTUVWXYZ'' ''abcdefghijklmnopqrstuvwxyz'') c of
        Some d \<Rightarrow> d
      | None \<Rightarrow> c)"

definition lower :: "string \<Rightarrow> string" where
  "lower s = map lower_char s"

section \<open>The page classifier (util.py, check_firewall_and_queue)\<close>

definition queue_domain :: string where
  "queue_domain = ''queue.driverpracticaltest.dvsa.gov.uk''"

definition login_banner :: string where
  "login_banner = ''enter details below to access your booking''"

text \<open>
  The decision of \<open>check_firewall_and_queue\<close> on the two values it reads from the driver,
  \<open>driver.current_url\<close> and \<open>driver.page_source\<close>: both are lower-cased, then the checks
  run in the order of the source, each returning at once.
\<close>

definition check_firewall_and_queue_on :: "string \<Rightarrow> string \<Rightarrow> string" where
  "check_firewall_and_queue_on url src =
     (let current_url = lower url;
          page_source = lower src
      in if sublist queue_domain current_url then ''queue''
         else if sublist ''request unsuccessful'' page_source \<and> sublist ''incident id'' page_source
           then ''firewall''
         else if sublist login_banner page_source then ''login_required''
         else if sublist ''oops'' page_source then ''error''
         else ''ok'')"

text \<open>
  The contract as the specification words it: an ordered list of checks, the first one
  that matches decides, and \<open>ok\<close> is the default.
\<close>

fun first_match :: "(bool \<times> string) list \<Rightarrow> string \<Rightarrow> string" where
  "first_match [] dflt = dflt"
| "first_match ((hit, state) # rest) dflt = (if hit then state else first_match rest dflt)"

definition has_firewall_signature :: "string \<Rightarrow> bool" where
  "has_firewall_signature text =
     (sublist ''request unsuccessful'' text \<and> sublist ''incident id'' text)"

definition classifier_spec :: "string \<Rightarrow> string \<Rightarrow> string" where
  "classifier_spec url content =
     first_match
       [(sublist queue_domain (lower url), ''queue''),
        (has_firewall_signature (lower content), ''firewall''),
        (sublist login_banner (lower content), ''login_required''),
        (sublist ''oops'' (lower content), ''error'')]
       ''ok''"

definition page_states :: "string set" where
  "page_states = {''queue'', ''firewall'', ''login_required'', ''error'', ''ok''}"

section \<open>The outside world: browser, pointer and clock\<close>

text \<open>
  The program drives a browser (Selenium) and the pointer (PyAutoGUI) and sleeps in
  between. Every such call is recorded, in order, in a history of actions. What a call
  observes is decided by the environment, a function from the history so far (the call
  included) to a snapshot of the world: the most general deterministic environment, in
  which a page may change after any action and any pause. Random draws are not
  computed: an amount is either an exact number or a uniform draw from a range.
\<close>

datatype locator = ById string | ByClassName string | ByXPath string

datatype elem =
    Elem locator  \<comment> \<open>\<open>driver.find_element(by, value)\<close>\<close>
  | Nth locator nat  \<comment> \<open>\<open>driver.find_elements(by, value)[i]\<close>\<close>
  | Inside elem locator  \<comment> \<open>\<open>element.find_element(by, value)\<close>\<close>
  | NthInside elem locator nat  \<comment> \<open>\<open>element.find_elements(by, value)[i]\<close>\<close>

datatype amount = Exactly rat | Uniform rat rat

datatype action =
    Sleep amount
  | Get string
  | Refresh
  | SwitchToDefaultContent
  | SwitchToFrame elem
  | CurrentUrl
  | PageSource
  | FindElement elem
  | FindElements locator
  | Click elem
  | Clear elem
  | SendKeys elem char
  | GetText elem
  | GetAttribute elem string
  | ExecuteScript string
  | Screenshot string
  | SendText string string
  | Quit
  | MoveTo amount amount amount
  | MouseDown
  | MouseUp

datatype exn =
    NoSuchElementException
  | WebDriverException
  | PointerException
  | ValueError
  | TypeError
  | OverflowError
  | IndexError
  | AttributeError

record day_cell =
  class_attr :: "string option"  \<comment> \<open>the cell's \<open>class\<close> attribute\<close>
  anchor :: "string option option"
    \<comment> \<open>the cell's first link, if any, and the link's \<open>data-date\<close> attribute, if any\<close>

record world =
  current_url :: string
  page_source :: string
  fails :: bool  \<comment> \<open>the call just issued raises an exception of the library\<close>
  has_elem :: "elem \<Rightarrow> bool"
  elem_count :: "locator \<Rightarrow> nat"
  elem_text :: "elem \<Rightarrow> string"
  elem_attr :: "elem \<Rightarrow> string \<Rightarrow> string option"
  calendar :: "day_cell list option"
    \<comment> \<open>the day cells of the calendar body, or None when the page has no calendar\<close>

type_synonym history = "action list"
type_synonym env = "history \<Rightarrow> world"
type_synonym 'a cmd = "history \<Rightarrow> (exn + 'a) \<times> history"

definition ret :: "'a \<Rightarrow> 'a cmd" where
  "ret v h = (Inr v, h)"

definition raise :: "exn \<Rightarrow> 'a cmd" where
  "raise e h = (Inl e, h)"

definition lift :: "exn + 'a \<Rightarrow> 'a cmd" where
  "lift r h = (r, h)"

definition bnd :: "'a cmd \<Rightarrow> ('a \<Rightarrow> 'b cmd) \<Rightarrow> 'b cmd" where
  "bnd m k h = (case m h of (Inl e, h') \<Rightarrow> (Inl e, h') | (Inr v, h') \<Rightarrow> k v h')"

definition seq :: "'a cmd \<Rightarrow> 'b cmd \<Rightarrow> 'b cmd" where
  "seq m k = bnd m (\<lambda>_. k)"

definition sleep :: "amount \<Rightarrow> unit cmd" where
  "sleep d h = (Inr (), h @ [Sleep d])"

text \<open>A call of the browser driver: recorded, then answered by the environment.\<close>

definition driver_call :: "env \<Rightarrow> action \<Rightarrow> world cmd" where
  "driver_call env a h =
     (let h' = h @ [a]
      in if fails (env h') then (Inl WebDriverException, h') else (Inr (env h'), h'))"

text \<open>A call of the pointer library.\<close>

definition pointer_call :: "env \<Rightarrow> action \<Rightarrow> unit cmd" where
  "pointer_call env a h =
     (let h' = h @ [a]
      in if fails (env h') then (Inl PointerException, h') else (Inr (), h'))"

section \<open>The hardware click (clicker.py)\<close>

definition perform_click :: "env \<Rightarrow> amount \<Rightarrow> amount \<Rightarrow> bool cmd" where
  "perform_click env x y =
     seq (pointer_call env (MoveTo x y (Uniform (7/10) (3/2))))
    (seq (sleep (Uniform (1/20) (1/5)))
    (seq (pointer_call env MouseDown)
    (seq (sleep (Uniform (1/20) (1/5)))
    (seq (pointer_call env MouseUp)
           (ret True)))))"

text \<open>
  \<open>hardware_click_range\<close> catches every exception and answers False; its result is a
  boolean and the history.
\<close>

definition or_false :: "bool cmd \<Rightarrow> history \<Rightarrow> bool \<times> history" where
  "or_false m h = (case m h of (Inl e, h') \<Rightarrow> (False, h') | (Inr b, h') \<Rightarrow> (b, h'))"

definition hardware_click_range ::
  "env \<Rightarrow> rat \<times> rat \<Rightarrow> (rat \<times> rat) option \<Rightarrow> history \<Rightarrow> bool \<times> history" where
  "hardware_click_range env top_right bottom_left h =
     (case bottom_left of
        None \<Rightarrow>
          or_false (perform_click env (Exactly (fst top_right)) (Exactly (snd top_right))) h
      | Some (x1, y1) \<Rightarrow>
          (case top_right of (x2, y2) \<Rightarrow>
             if x2 \<le> x1 \<or> y2 \<le> y1 then (False, h)
             else or_false (perform_click env (Uniform x1 x2) (Uniform y1 y2)) h))"

section \<open>The captcha handler (util.py, solve_captcha)\<close>

definition solve_captcha ::
  "env \<Rightarrow> bool \<Rightarrow> rat \<times> rat \<Rightarrow> (rat \<times> rat) option \<Rightarrow> history \<Rightarrow> bool \<times> history" where
  "solve_captcha env skip coord_top_right coord_bottom_left h =
     (if skip then (False, h @ [Sleep (Exactly 60)])
      else
        or_false
          (bnd (driver_call env SwitchToDefaultContent) (\<lambda>_.
           bnd (driver_call env PageSource) (\<lambda>w.
             let page_source = lower (page_source w)
             in if sublist ''request unsuccessful'' page_source
                   \<and> sublist ''incident id'' page_source
                then (\<lambda>h1.
                  case hardware_click_range env coord_top_right coord_bottom_left h1 of
                    (_, h2) \<Rightarrow> seq (sleep (Uniform (3/2) (5/2))) (ret True) h2)
                else ret True)))
          h)"

section \<open>Dates (the datetime values of util.py)\<close>

text \<open>
  A \<open>datetime\<close> as Python holds it, by its fields; both formats the program parses leave
  seconds and microseconds zero, so they are omitted. Comparison is field by field, as
  Python compares naive datetimes.
\<close>

record datetime =
  year :: int
  month :: int
  day :: int
  hour :: int
  minute :: int

definition dt_less :: "datetime \<Rightarrow> datetime \<Rightarrow> bool" where
  "dt_less a b =
     (year a < year b \<or> (year a = year b \<and>
       (month a < month b \<or> (month a = month b \<and>
         (day a < day b \<or> (day a = day b \<and>
           (hour a < hour b \<or> (hour a = hour b \<and> minute a < minute b))))))))"

definition is_leap :: "int \<Rightarrow> bool" where
  "is_leap y = (y mod 4 = 0 \<and> (y mod 100 \<noteq> 0 \<or> y mod 400 = 0))"

definition days_in_month :: "int \<Rightarrow> int \<Rightarrow> int" where
  "days_in_month y m =
     (if m = 2 then (if is_leap y then 29 else 28)
      else if m \<in> {4, 6, 9, 11} then 30
      else 31)"

definition days_before_year :: "int \<Rightarrow> int" where
  "days_before_year y = (y - 1) * 365 + (y - 1) div 4 - (y - 1) div 100 + (y - 1) div 400"

definition days_before_month :: "int \<Rightarrow> int \<Rightarrow> int" where
  "days_before_month y m = sum_list (map (days_in_month y) [1..m - 1])"

definition toordinal :: "datetime \<Rightarrow> int" where
  "toordinal d = days_before_year (year d) + days_before_month (year d) (month d) + day d"

text \<open>\<open>datetime.weekday()\<close>: Monday is 0, Sunday is 6.\<close>

definition weekday :: "datetime \<Rightarrow> int" where
  "weekday d = (toordinal d + 6) mod 7"

text \<open>\<open>dt - timedelta(days=1)\<close>; before the first day of year 1 Python raises OverflowError.\<close>

definition minus_one_day :: "datetime \<Rightarrow> exn + datetime" where
  "minus_one_day d =
     (if 1 < day d then Inr (d\<lparr>day := day d - 1\<rparr>)
      else if 1 < month d
        then Inr (d\<lparr>month := month d - 1, day := days_in_month (year d) (month d - 1)\<rparr>)
      else if 1 < year d then Inr (d\<lparr>year := year d - 1, month := 12, day := 31\<rparr>)
      else Inl OverflowError)"

subsection \<open>\<open>datetime.strptime(s, "%Y-%m-%d")\<close>\<close>

text \<open>
  The format accepts four digits, a dash, a month from 1 to 12 in one or two digits, a
  dash, and a day from 1 to 31 in one or two digits (or a space and one digit); nothing
  may remain. The date must exist (year at least 1, day within the month). Everything
  else raises ValueError. Digits are the ASCII digits.
\<close>

definition digit_value :: "char \<Rightarrow> int option" where
  "digit_value c = map_of (zip ''0123456789'' [0, 1, 2, 3, 4, 5, 6, 7, 8, 9]) c"

definition is_digit :: "char \<Rightarrow> bool" where
  "is_digit c = (digit_value c \<noteq> None)"

definition number :: "string \<Rightarrow> int" where
  "number s = foldl (\<lambda>n c. 10 * n + (case digit_value c of Some v \<Rightarrow> v | None \<Rightarrow> 0)) 0 s"

definition month_token :: "string \<Rightarrow> int option" where
  "month_token t =
     (if list_all is_digit t \<and> length t \<in> {1, 2} \<and> 1 \<le> number t \<and> number t \<le> 12
      then Some (number t) else None)"

definition day_token :: "string \<Rightarrow> int option" where
  "day_token t =
     (if list_all is_digit t \<and> length t \<in> {1, 2} \<and> 1 \<le> number t \<and> number t \<le> 31
        then Some (number t)
      else if length t = 2 \<and> hd t = CHR '' '' \<and> is_digit (last t) \<and> 1 \<le> number (tl t)
        then Some (number (tl t))
      else None)"

definition strptime_ymd :: "string \<Rightarrow> exn + datetime" where
  "strptime_ymd s =
     (let y_tok = take 4 s;
          rest = drop 5 s;
          m_tok = takeWhile (\<lambda>c. c \<noteq> CHR ''-'') rest;
          d_tok = drop (Suc (length m_tok)) rest
      in if length y_tok = 4 \<and> list_all is_digit y_tok \<and> take 1 (drop 4 s) = ''-''
            \<and> take 1 (drop (length m_tok) rest) = ''-''
         then (case (month_token m_tok, day_token d_tok) of
                 (Some m, Some d) \<Rightarrow>
                   if 1 \<le> number y_tok \<and> d \<le> days_in_month (number y_tok) m
                   then Inr \<lparr>year = number y_tok, month = m, day = d, hour = 0, minute = 0\<rparr>
                   else Inl ValueError
               | _ \<Rightarrow> Inl ValueError)
         else Inl ValueError)"

section \<open>The calendar scanner (util.py, scan_for_preferred_tests)\<close>

definition parse_or_default :: "string \<Rightarrow> string \<Rightarrow> exn + datetime" where
  "parse_or_default date_string dflt =
     (if date_string = [] \<or> date_string = ''None'' then strptime_ymd dflt
      else strptime_ymd date_string)"

definition date_2050_12_12 :: datetime where
  "date_2050_12_12 = \<lparr>year = 2050, month = 12, day = 12, hour = 0, minute = 0\<rparr>"

text \<open>
  The bound derived from the current test date. The long format
  \<open>"%A %d %B %Y %I:%M%p"\<close> names weekdays and months in the words of the locale, so the
  library's parser for it is a parameter, \<open>strptime_long\<close>; any exception of the parse or
  of the subtraction falls back to 2050-12-12 (the bare \<open>except\<close> of the source).
\<close>

definition derived_min_date :: "(string \<Rightarrow> exn + datetime) \<Rightarrow> string \<Rightarrow> datetime" where
  "derived_min_date strptime_long current_test_date =
     (if current_test_date \<noteq> [] \<and> sublist ''Yes'' current_test_date then date_2050_12_12
      else (case strptime_long current_test_date of
              Inl e \<Rightarrow> date_2050_12_12
            | Inr dt_current_test \<Rightarrow>
                (case minus_one_day dt_current_test of
                   Inl e \<Rightarrow> date_2050_12_12
                 | Inr d \<Rightarrow> d)))"

definition min_date_bound ::
  "(string \<Rightarrow> exn + datetime) \<Rightarrow> string \<Rightarrow> string \<Rightarrow> exn + datetime" where
  "min_date_bound strptime_long current_test_date before_date_str =
     (let min_date = derived_min_date strptime_long current_test_date
      in if before_date_str \<noteq> [] \<and> before_date_str \<noteq> ''None''
         then (case strptime_ymd before_date_str of
                 Inl e \<Rightarrow> Inl e
               | Inr parsed_before \<Rightarrow>
                   Inr (if dt_less parsed_before min_date then parsed_before else min_date))
         else Inr min_date)"

definition cal_body :: elem where
  "cal_body = Elem (ByClassName ''BookingCalendar-datesBody'')"

definition day_elem :: "nat \<Rightarrow> elem" where
  "day_elem i = NthInside cal_body (ByXPath ''.//td'') i"

definition link_elem :: "nat \<Rightarrow> elem" where
  "link_elem i = Inside (day_elem i) (ByXPath ''.//a'')"

type_synonym scan_result = "bool \<times> string option \<times> elem option"

definition unavailable :: "day_cell \<Rightarrow> bool" where
  "unavailable c =
     sublist ''--unavailable'' (case class_attr c of None \<Rightarrow> [] | Some cls \<Rightarrow> cls)"

text \<open>The five conditions on a link's date, in the order of the source.\<close>

definition date_ok ::
  "datetime \<Rightarrow> datetime \<Rightarrow> string list \<Rightarrow> string \<Rightarrow> string \<Rightarrow> datetime \<Rightarrow> bool" where
  "date_ok min_date max_date unavailable_dates formatted_test_date link_date_str link_date_dt =
     (link_date_str \<notin> set unavailable_dates
      \<and> dt_less link_date_dt min_date
      \<and> dt_less max_date link_date_dt
      \<and> weekday link_date_dt < 5
      \<and> link_date_str \<noteq> formatted_test_date)"

text \<open>
  The loop over the day cells, from cell \<open>i\<close> on. The cells are those of the calendar
  body that was found; every call on a cell or on its link goes to the driver, is
  recorded, and may raise. A cell without a link raises NoSuchElementException, which
  the loop swallows; an exception of the driver, a link without a \<open>data-date\<close>
  (TypeError) or with one that does not parse (ValueError) ends the loop with the
  exception.
\<close>

fun scan_days ::
  "env \<Rightarrow> datetime \<Rightarrow> datetime \<Rightarrow> string list \<Rightarrow> string \<Rightarrow> nat \<Rightarrow> day_cell list
   \<Rightarrow> scan_result cmd" where
  "scan_days env min_date max_date unavailable_dates formatted_test_date i [] h =
     (Inr (False, None, None), h)"
| "scan_days env min_date max_date unavailable_dates formatted_test_date i (d # days) h =
     (case driver_call env (GetAttribute (day_elem i) ''class'') h of
        (Inl e, h1) \<Rightarrow> (Inl e, h1)
      | (Inr _, h1) \<Rightarrow>
          if \<not> unavailable d then
            (case driver_call env (FindElement (link_elem i)) h1 of
               (Inl e, h2) \<Rightarrow> (Inl e, h2)
             | (Inr _, h2) \<Rightarrow>
                 (case anchor d of
                    None \<Rightarrow>
                      scan_days env min_date max_date unavailable_dates formatted_test_date
                        (Suc i) days h2
                  | Some data_date \<Rightarrow>
                      (case driver_call env (GetAttribute (link_elem i) ''data-date'') h2 of
                         (Inl e, h3) \<Rightarrow> (Inl e, h3)
                       | (Inr _, h3) \<Rightarrow>
                           (case data_date of
                              None \<Rightarrow> (Inl TypeError, h3)
                            | Some link_date_str \<Rightarrow>
                                (case strptime_ymd link_date_str of
                                   Inl e \<Rightarrow> (Inl e, h3)
                                 | Inr link_date_dt \<Rightarrow>
                                     if date_ok min_date max_date unavailable_dates
                                          formatted_test_date link_date_str link_date_dt
                                     then (Inr (True, Some link_date_str, Some (link_elem i)),
                                           h3)
                                     else scan_days env min_date max_date unavailable_dates
                                            formatted_test_date (Suc i) days h3)))))
          else scan_days env min_date max_date unavailable_dates formatted_test_date
                 (Suc i) days h1)"

text \<open>
  The body of the outer \<open>try\<close>: the bounds, the lookup of the calendar body, the lookup
  of its cells, the loop.
\<close>

definition scan_body ::
  "env \<Rightarrow> (string \<Rightarrow> exn + datetime) \<Rightarrow> string \<Rightarrow> string \<Rightarrow> string list \<Rightarrow> string \<Rightarrow> string
   \<Rightarrow> scan_result cmd" where
  "scan_body env strptime_long before_date_str after_date_str unavailable_dates
     current_test_date formatted_test_date =
     bnd (lift (min_date_bound strptime_long current_test_date before_date_str)) (\<lambda>min_date.
     bnd (lift (parse_or_default after_date_str ''2000-01-01'')) (\<lambda>max_date.
     bnd (driver_call env (FindElement cal_body)) (\<lambda>w.
       case calendar w of
         None \<Rightarrow> raise NoSuchElementException
       | Some days \<Rightarrow>
           seq (driver_call env (FindElements (ByXPath ''.//td'')))
               (scan_days env min_date max_date unavailable_dates formatted_test_date 0
                  days))))"

text \<open>
  The function itself: both handlers of the outer \<open>try\<close> (NoSuchElementException, and
  every other exception) return the not-found triple.
\<close>

definition not_found :: scan_result where
  "not_found = (False, None, None)"

definition scan_for_preferred_tests ::
  "env \<Rightarrow> (string \<Rightarrow> exn + datetime) \<Rightarrow> string \<Rightarrow> string \<Rightarrow> string list \<Rightarrow> string \<Rightarrow> string
   \<Rightarrow> history \<Rightarrow> scan_result \<times> history" where
  "scan_for_preferred_tests env strptime_long before_date_str after_date_str unavailable_dates
     current_test_date formatted_test_date h =
     (case scan_body env strptime_long before_date_str after_date_str unavailable_dates
             current_test_date formatted_test_date h of
        (Inl NoSuchElementException, h') \<Rightarrow> (not_found, h')
      | (Inl e, h') \<Rightarrow> (not_found, h')
      | (Inr r, h') \<Rightarrow> (r, h'))"

subsection \<open>The filter of the scanner, cell by cell\<close>

text \<open>
  Three properties of a day cell, for stating what the scan returns. A cell
  \<open>qualifies\<close> when its link carries a date that parses and passes the five conditions;
  it is \<open>readable\<close> when reading its date cannot raise: it has no link, or a link whose
  date parses. \<open>link_date\<close> is the date string of the cell's link.
\<close>

definition link_date :: "day_cell \<Rightarrow> string option" where
  "link_date c = (case anchor c of None \<Rightarrow> None | Some data_date \<Rightarrow> data_date)"

definition qualifies ::
  "datetime \<Rightarrow> datetime \<Rightarrow> string list \<Rightarrow> string \<Rightarrow> day_cell \<Rightarrow> bool" where
  "qualifies min_date max_date unavailable_dates formatted_test_date c =
     (case link_date c of
        None \<Rightarrow> False
      | Some s \<Rightarrow>
          (case strptime_ymd s of
             Inl e \<Rightarrow> False
           | Inr d \<Rightarrow> date_ok min_date max_date unavailable_dates formatted_test_date s d))"


text \<open>A cell with the link of an unavailable cell replaced by anything else.\<close>

definition relink :: "(day_cell \<Rightarrow> string option option) \<Rightarrow> day_cell \<Rightarrow> day_cell" where
  "relink f c = (if unavailable c then c\<lparr>anchor := f c\<rparr> else c)"

definition is_date_read :: "action \<Rightarrow> bool" where
  "is_date_read a = (case a of GetAttribute e name \<Rightarrow> name = ''data-date'' | _ \<Rightarrow> False)"

section \<open>The reschedule bot (main.py, class DVSABot)\<close>

subsection \<open>Constants and helpers\<close>

definition SOLVE_MANUALLY :: bool where
  "SOLVE_MANUALLY = False"

definition COORD_TOP_RIGHT :: "rat \<times> rat" where
  "COORD_TOP_RIGHT = (820, 420)"

definition COORD_BOTTOM_LEFT :: "(rat \<times> rat) option" where
  "COORD_BOTTOM_LEFT = None"

definition max_queue_checks :: nat where
  "max_queue_checks = 100"

text \<open>\<open>random_sleep(base, max_extra)\<close> of util.py: two sleeps, the second one random.\<close>

definition random_sleep :: "rat \<Rightarrow> rat \<Rightarrow> unit cmd" where
  "random_sleep base max_extra = seq (sleep (Exactly base)) (sleep (Uniform 0 max_extra))"

text \<open>
  \<open>check_firewall_and_queue(driver)\<close>: the two reads of the driver, either of which may
  raise, and the decision on what they return.
\<close>

definition check_firewall_and_queue :: "env \<Rightarrow> string cmd" where
  "check_firewall_and_queue env =
     bnd (driver_call env CurrentUrl) (\<lambda>w1.
     bnd (driver_call env PageSource) (\<lambda>w2.
       ret (check_firewall_and_queue_on (current_url w1) (page_source w2))))"

text \<open>A function that returns a value and cannot raise, used as a command.\<close>

definition total :: "(history \<Rightarrow> 'a \<times> history) \<Rightarrow> 'a cmd" where
  "total f h = (case f h of (v, h') \<Rightarrow> (Inr v, h'))"

subsection \<open>handle_queue_and_firewall\<close>

text \<open>The firewall branch of the loop body; the loop counter is not touched by it.\<close>

definition firewall_branch :: "env \<Rightarrow> unit cmd" where
  "firewall_branch env =
     seq (random_sleep (1/2) (5/2))
    (bnd (total (solve_captcha env SOLVE_MANUALLY COORD_TOP_RIGHT COORD_BOTTOM_LEFT)) (\<lambda>solved.
     seq (if solved
          then seq (sleep (Exactly 3))
              (bnd (check_firewall_and_queue env) (\<lambda>status.
                 if status = ''firewall'' then random_sleep 180 10 else ret ()))
          else ret ())
         (seq (driver_call env Refresh) (ret ()))))"

text \<open>
  The \<open>while\<close> loop, from a given value of \<open>loop_count\<close>. It returns the final counter, or
  the exception that left it; a run that never leaves the loop has the value None.
\<close>

partial_function (option) queue_loop ::
  "env \<Rightarrow> nat \<Rightarrow> history \<Rightarrow> ((exn + nat) \<times> history) option" where
  "queue_loop env loop_count h =
     (if loop_count < max_queue_checks then
        (case check_firewall_and_queue env h of
           (Inl e, h1) \<Rightarrow> Some (Inl e, h1)
         | (Inr status, h1) \<Rightarrow>
             if status = ''queue'' then
               (case random_sleep (1/2) (3/2) h1 of
                  (_, h2) \<Rightarrow> queue_loop env (loop_count + 1) h2)
             else if status = ''firewall'' then
               (case firewall_branch env h1 of
                  (Inl e, h2) \<Rightarrow> Some (Inl e, h2)
                | (Inr _, h2) \<Rightarrow> queue_loop env loop_count h2)
             else if status = ''login_required'' then Some (Inr loop_count, h1)
             else if status = ''error'' then Some (Inr loop_count, h1)
             else if status = ''ok'' then Some (Inr loop_count, h1)
             else queue_loop env loop_count h1)
      else Some (Inr loop_count, h))"

declare queue_loop.simps [code]

definition handle_queue_and_firewall :: "env \<Rightarrow> history \<Rightarrow> ((exn + unit) \<times> history) option" where
  "handle_queue_and_firewall env h =
     (case queue_loop env 0 h of
        None \<Rightarrow> None
      | Some (Inl e, h') \<Rightarrow> Some (Inl e, h')
      | Some (Inr loop_count, h') \<Rightarrow>
          Some (if max_queue_checks \<le> loop_count
                then seq (driver_call env Refresh) (ret ()) h'
                else (Inr (), h')))"

text \<open>
  Two kinds of environment: one that shows the firewall page at every observation, and
  one that shows the queue at every observation.
\<close>

definition always_firewall :: "env \<Rightarrow> bool" where
  "always_firewall env =
     (\<forall>h. \<not> fails (env h)
          \<and> \<not> sublist queue_domain (lower (current_url (env h)))
          \<and> has_firewall_signature (lower (page_source (env h))))"

definition always_queue :: "env \<Rightarrow> bool" where
  "always_queue env =
     (\<forall>h. \<not> fails (env h) \<and> sublist queue_domain (lower (current_url (env h))))"

definition never_firewall :: "env \<Rightarrow> bool" where
  "never_firewall env =
     (\<forall>h h'. check_firewall_and_queue_on (current_url (env h)) (page_source (env h'))
             \<noteq> ''firewall'')"

text \<open>What one pass through the queue branch adds to the history.\<close>

definition queue_pass :: history where
  "queue_pass = [CurrentUrl, PageSource, Sleep (Exactly (1/2)), Sleep (Uniform 0 (3/2))]"

section \<open>Looking up and clicking elements\<close>

definition find_element :: "env \<Rightarrow> elem \<Rightarrow> elem cmd" where
  "find_element env e =
     bnd (driver_call env (FindElement e)) (\<lambda>w.
       if has_elem w e then ret e else raise NoSuchElementException)"

definition click :: "env \<Rightarrow> elem \<Rightarrow> unit cmd" where
  "click env e = seq (driver_call env (Click e)) (ret ())"

text \<open>\<open>try: m except NoSuchElementException: handler\<close>.\<close>

definition on_no_such_element :: "'a cmd \<Rightarrow> 'a cmd \<Rightarrow> 'a cmd" where
  "on_no_such_element m handler h =
     (case m h of
        (Inl NoSuchElementException, h') \<Rightarrow> handler h'
      | (Inl e, h') \<Rightarrow> (Inl e, h')
      | (Inr v, h') \<Rightarrow> (Inr v, h'))"

section \<open>The booking finalizer (util.py, book_test_flow)\<close>

definition i_am_candidate :: elem where
  "i_am_candidate = Elem (ById ''i-am-candidate'')"

definition main_iframe :: elem where
  "main_iframe = Elem (ById ''main-iframe'')"

definition confirm_changes :: elem where
  "confirm_changes = Elem (ById ''confirm-changes'')"

definition slot_taken_text :: string where
  "slot_taken_text = ''the time chosen is no longer available''"

text \<open>The first statement of the \<open>try\<close>: the candidate button is clicked once only.\<close>

definition click_candidate :: "env \<Rightarrow> bool \<Rightarrow> unit cmd" where
  "click_candidate env i_am_candidate_clicked =
     (if \<not> i_am_candidate_clicked
      then bnd (find_element env i_am_candidate) (\<lambda>button. click env button)
      else ret ())"

text \<open>Back to the top document, into the main frame if there is one, and the page is read.\<close>

definition enter_main_frame :: "env \<Rightarrow> unit cmd" where
  "enter_main_frame env =
     on_no_such_element
       (bnd (find_element env main_iframe) (\<lambda>main_frame.
          seq (driver_call env (SwitchToFrame main_frame)) (ret ())))
       (ret ())"

definition read_page :: "env \<Rightarrow> world cmd" where
  "read_page env =
     seq (driver_call env SwitchToDefaultContent)
    (seq (enter_main_frame env)
         (driver_call env PageSource))"

text \<open>
  How one pass of the \<open>for\<close> loop ends: with a \<open>break\<close> (the slot was taken, or the booking
  is taken as reserved), or by going on to the next attempt.
\<close>

datatype attempt_end = SlotTaken | Reserved | NextAttempt

text \<open>
  The \<open>try\<close> statement of one attempt, with its handlers. The result carries the new
  value of \<open>i_am_candidate_clicked\<close>.
\<close>

definition booking_attempt ::
  "env \<Rightarrow> bool \<Rightarrow> rat \<times> rat \<Rightarrow> (rat \<times> rat) option \<Rightarrow> bool \<Rightarrow> history
   \<Rightarrow> (attempt_end \<times> bool) \<times> history" where
  "booking_attempt env solve_manually coord_top_right coord_bottom_left clicked h0 =
     (let h = h0 @ [Sleep (Exactly (3/10))]
      in case click_candidate env clicked h of
           (Inl NoSuchElementException, h1) \<Rightarrow> ((Reserved, clicked), h1)
         | (Inl e, h1) \<Rightarrow> ((NextAttempt, clicked), h1)
         | (Inr _, h1) \<Rightarrow>
             (case read_page env h1 of
                (Inl NoSuchElementException, h2) \<Rightarrow> ((Reserved, True), h2)
              | (Inl e, h2) \<Rightarrow> ((NextAttempt, True), h2)
              | (Inr w, h2) \<Rightarrow>
                  if sublist slot_taken_text (lower (page_source w))
                  then ((SlotTaken, True), h2)
                  else (case solve_captcha env solve_manually coord_top_right
                               coord_bottom_left h2 of
                          (solved, h3) \<Rightarrow> ((Reserved, True), h3))))"

text \<open>The statements after the \<open>try\<close>, run when the attempt did not break out.\<close>

definition recover :: "env \<Rightarrow> unit cmd" where
  "recover env =
     seq (driver_call env SwitchToDefaultContent)
    (seq (sleep (Exactly 1))
    (on_no_such_element
       (bnd (find_element env main_iframe) (\<lambda>main_frame.
        seq (driver_call env (SwitchToFrame main_frame))
       (bnd (driver_call env PageSource) (\<lambda>w.
          if sublist ''Why am I seeing this page'' (page_source w)
          then seq (random_sleep 20 4) (seq (driver_call env Refresh) (ret ()))
          else ret ()))))
       (ret ())))"

text \<open>The loop, with \<open>n\<close> attempts left; it returns \<open>(test_taken, success)\<close>.\<close>

fun booking_loop ::
  "env \<Rightarrow> bool \<Rightarrow> rat \<times> rat \<Rightarrow> (rat \<times> rat) option \<Rightarrow> nat \<Rightarrow> bool \<Rightarrow> (bool \<times> bool) cmd" where
  "booking_loop env solve_manually tr bl 0 clicked h = (Inr (False, False), h)"
| "booking_loop env solve_manually tr bl (Suc n) clicked h =
     (case booking_attempt env solve_manually tr bl clicked h of
        ((SlotTaken, clicked'), h1) \<Rightarrow> (Inr (True, False), h1)
      | ((Reserved, clicked'), h1) \<Rightarrow> (Inr (False, True), h1)
      | ((NextAttempt, clicked'), h1) \<Rightarrow>
          (case recover env h1 of
             (Inl e, h2) \<Rightarrow> (Inl e, h2)
           | (Inr _, h2) \<Rightarrow> booking_loop env solve_manually tr bl n clicked' h2))"

text \<open>The final confirmation, inside its \<open>try\<close>.\<close>

definition final_confirmation ::
  "env \<Rightarrow> bool \<Rightarrow> rat \<times> rat \<Rightarrow> (rat \<times> rat) option \<Rightarrow> bool cmd" where
  "final_confirmation env solve_manually tr bl =
     bnd (find_element env confirm_changes) (\<lambda>button.
     seq (click env button)
    (seq (sleep (Exactly 1))
    (bnd (check_firewall_and_queue env) (\<lambda>page_status.
       if page_status = ''firewall'' then
         seq (random_sleep 40 4)
        (seq (driver_call env Refresh)
        (bnd (check_firewall_and_queue env) (\<lambda>status.
           if status = ''firewall'' then
             seq (total (solve_captcha env solve_manually tr bl))
            (bnd (driver_call env PageSource) (\<lambda>w.
               if sublist ''imperva'' (lower (page_source w)) then ret False else ret True))
           else ret True)))
       else ret True))))"

definition booking_attempts :: nat where
  "booking_attempts = 4"

definition book_test_flow ::
  "env \<Rightarrow> bool \<Rightarrow> bool \<Rightarrow> rat \<times> rat \<Rightarrow> (rat \<times> rat) option \<Rightarrow> bool \<Rightarrow> bool cmd" where
  "book_test_flow env short_notice solve_manually coord_top_right coord_bottom_left
     auto_book_test h =
     (case booking_loop env solve_manually coord_top_right coord_bottom_left booking_attempts
             False h of
        (Inl e, h1) \<Rightarrow> (Inl e, h1)
      | (Inr (test_taken, success), h1) \<Rightarrow>
          if test_taken then (Inr False, h1)
          else if \<not> success then (Inr False, h1)
          else if auto_book_test
            then total (or_false (final_confirmation env solve_manually coord_top_right
                                    coord_bottom_left)) h1
          else (Inr True, h1))"

text \<open>
  The state in which attempt number \<open>k + 1\<close> starts, when the \<open>k\<close> attempts before it all
  went on to the next one; None when the loop ended earlier.
\<close>

fun attempt_start ::
  "env \<Rightarrow> bool \<Rightarrow> rat \<times> rat \<Rightarrow> (rat \<times> rat) option \<Rightarrow> nat \<Rightarrow> bool \<Rightarrow> history
   \<Rightarrow> (bool \<times> history) option" where
  "attempt_start env solve_manually tr bl 0 clicked h = Some (clicked, h)"
| "attempt_start env solve_manually tr bl (Suc k) clicked h =
     (case booking_attempt env solve_manually tr bl clicked h of
        ((NextAttempt, clicked'), h1) \<Rightarrow>
          (case recover env h1 of
             (Inl e, h2) \<Rightarrow> None
           | (Inr _, h2) \<Rightarrow> attempt_start env solve_manually tr bl k clicked' h2)
      | _ \<Rightarrow> None)"

section \<open>The session (main.py, DVSABot.login and search_and_book)\<close>

text \<open>
  The preferences dictionary of the bot and the module's configuration globals, as
  records. Three functions of the standard library that depend on the locale or the
  time zone of the machine are parameters of the model: the parser of the long date
  format, the month name of a date (\<open>strftime("%B")\<close>) and the clock time of an epoch
  in milliseconds (\<open>fromtimestamp(ms / 1000).strftime("%H:%M")\<close>). Starting the browser
  (\<open>setup_driver\<close>) is not modelled: a session begins with a running driver.
\<close>

record preferences =
  licence :: string
  booking :: string
  current_test_date :: string
  center :: "string list"
  before_date :: string
  after_date :: string
  disabled_dates :: "string list"

record config =
  PHONE_NUMBER :: string
  AUTO_BOOK_TEST :: bool
  FORMATTED_CURRENT_TEST_DATE :: string

record library =
  strptime_long :: "string \<Rightarrow> exn + datetime"
  month_name :: "datetime \<Rightarrow> string"
  clock_time :: "int \<Rightarrow> string"

record bot =
  prefs :: preferences
  active :: bool
  current_centre_index :: nat

definition DVSABot :: "preferences \<Rightarrow> bot" where
  "DVSABot p = \<lparr>prefs = p, active = False, current_centre_index = 0\<rparr>"

definition DVSA_QUEUE_URL :: string where
  "DVSA_QUEUE_URL = ''https://queue.driverpracticaltest.dvsa.gov.uk/?c=dvsatars&e=ibsredirectprod0915&t=https%3A%2F%2Fdriverpracticaltest.dvsa.gov.uk%2Flogin&cid=en-GB''"

definition DVSA_DELAY :: rat where
  "DVSA_DELAY = 60"

definition failure_states :: "string set" where
  "failure_states = {''firewall'', ''queue'', ''error'', ''login_required''}"

subsection \<open>Typing into a text box (util.py, input_text_box)\<close>

fun type_chars :: "env \<Rightarrow> elem \<Rightarrow> string \<Rightarrow> unit cmd" where
  "type_chars env box [] h = (Inr (), h)"
| "type_chars env box (c # cs) h =
     seq (driver_call env (SendKeys box c))
    (seq (sleep (Uniform (1/100) (1/20)))
         (type_chars env box cs)) h"

definition input_text_box :: "env \<Rightarrow> string \<Rightarrow> string \<Rightarrow> unit cmd" where
  "input_text_box env box_id text_to_type =
     on_no_such_element
       (bnd (find_element env (Elem (ById box_id))) (\<lambda>box. type_chars env box text_to_type))
       (ret ())"

text \<open>\<open>driver.find_element(By.ID, id).click()\<close>.\<close>

definition click_id :: "env \<Rightarrow> string \<Rightarrow> unit cmd" where
  "click_id env ident = bnd (find_element env (Elem (ById ident))) (\<lambda>e. click env e)"

subsection \<open>login\<close>

definition enter_reschedule_credentials :: "env \<Rightarrow> preferences \<Rightarrow> unit cmd" where
  "enter_reschedule_credentials env p =
     seq (input_text_box env ''driving-licence-number'' (licence p))
    (seq (input_text_box env ''application-reference-number'' (booking p))
    (seq (random_sleep 1 1)
         (on_no_such_element
            (seq (click_id env ''booking-login'') (random_sleep 3 1))
            (ret ()))))"

text \<open>Step 3 of \<open>login\<close>: the classification after the credentials, and the answer to a
  firewall. No other state is looked at here.\<close>

definition after_credentials :: "env \<Rightarrow> unit cmd" where
  "after_credentials env =
     bnd (check_firewall_and_queue env) (\<lambda>status.
       if status = ''firewall'' then
         seq (random_sleep 2 5)
        (bnd (total (solve_captcha env SOLVE_MANUALLY COORD_TOP_RIGHT COORD_BOTTOM_LEFT))
           (\<lambda>solved.
         seq (if solved
              then seq (sleep (Exactly 3))
                  (bnd (check_firewall_and_queue env) (\<lambda>status.
                     if status = ''firewall'' then random_sleep 20 4 else ret ()))
              else ret ())
             (seq (driver_call env Refresh) (ret ()))))
       else ret ())"

text \<open>
  Step 4, the body of the \<open>try\<close> up to the final classification. It returns None when
  the booking was cancelled (the early \<open>return\<close>), and otherwise the new list of
  centres.
\<close>

definition read_summary :: "env \<Rightarrow> (string \<times> string) cmd" where
  "read_summary env =
     bnd (driver_call env (FindElements (ByClassName ''contents''))) (\<lambda>w.
       if 2 \<le> elem_count w (ByClassName ''contents'') then
         bnd (find_element env (Inside (Nth (ByClassName ''contents'') 0) (ByXPath ''.//dd'')))
           (\<lambda>dd0.
         bnd (driver_call env (GetText dd0)) (\<lambda>w0.
         bnd (find_element env (Inside (Nth (ByClassName ''contents'') 1) (ByXPath ''.//dd'')))
           (\<lambda>dd1.
         bnd (driver_call env (GetText dd1)) (\<lambda>w1.
           ret (elem_text w0 dd0, elem_text w1 dd1)))))
       else ret ([], []))"

definition change_to_earliest :: "env \<Rightarrow> unit cmd" where
  "change_to_earliest env =
     seq (click_id env ''date-time-change'')
    (seq (random_sleep 1 2)
    (seq (click_id env ''test-choice-earliest'')
    (seq (random_sleep 1 2)
    (seq (driver_call env
            (ExecuteScript ''window.scrollTo(0, document.body.scrollHeight);''))
    (seq (random_sleep 1 2)
         (click_id env ''driving-licence-submit''))))))"

definition change_centre_at_login :: "env \<Rightarrow> string list \<Rightarrow> unit cmd" where
  "change_centre_at_login env centres =
     seq (click_id env ''test-centre-change'')
    (seq (random_sleep 3 2)
    (bnd (find_element env (Elem (ById ''test-centres-input''))) (\<lambda>search_box.
     seq (driver_call env (Clear search_box))
    (seq (case centres of
            [] \<Rightarrow> ret ()
          | first # _ \<Rightarrow> input_text_box env ''test-centres-input'' first)
    (seq (click_id env ''test-centres-submit'')
    (seq (random_sleep 5 2)
    (bnd (find_element env (Elem (ByClassName ''test-centre-results''))) (\<lambda>results_container.
     bnd (find_element env (Inside results_container (ByXPath ''.//a''))) (\<lambda>first_link.
       click env first_link)))))))))"

definition open_calendar :: "env \<Rightarrow> preferences \<Rightarrow> string list option cmd" where
  "open_calendar env p =
     bnd (read_summary env) (\<lambda>(test_date_temp, test_center_temp).
     bnd (driver_call env PageSource) (\<lambda>w.
       if sublist ''Your booking has been cancelled.'' (page_source w) then ret None
       else if sublist ''Yes'' (current_test_date p) then
         seq (change_to_earliest env)
        (seq (random_sleep 1 2)
             (ret (Some (if test_center_temp \<noteq> [] then [test_center_temp] else center p))))
       else
         seq (change_centre_at_login env (center p))
             (ret (Some (center p)))))"

text \<open>
  Step 4 with its handler: the final classification sets the flag, and every exception
  clears it.
\<close>

definition login_summary :: "env \<Rightarrow> bot \<Rightarrow> history \<Rightarrow> bot \<times> history" where
  "login_summary env b h =
     (case open_calendar env (prefs b) h of
        (Inl e, h1) \<Rightarrow> (b\<lparr>active := False\<rparr>, h1)
      | (Inr None, h1) \<Rightarrow> (b\<lparr>active := False\<rparr>, h1)
      | (Inr (Some centres), h1) \<Rightarrow>
          (let b1 = b\<lparr>prefs := (prefs b)\<lparr>center := centres\<rparr>\<rparr>
           in case check_firewall_and_queue env h1 of
                (Inl e, h2) \<Rightarrow> (b1\<lparr>active := False\<rparr>, h2)
              | (Inr final_status, h2) \<Rightarrow>
                  (b1\<lparr>active := (final_status \<notin> failure_states)\<rparr>, h2)))"

text \<open>
  \<open>login\<close>. The queue loop may never return, so the result is optional; exceptions of
  the first three steps and of the read of the URL leave the function.
\<close>

definition login :: "env \<Rightarrow> bot \<Rightarrow> history \<Rightarrow> ((exn + bot) \<times> history) option" where
  "login env b h =
     (case driver_call env (Get DVSA_QUEUE_URL) h of
        (Inl e, h0) \<Rightarrow> Some (Inl e, h0)
      | (Inr _, h0) \<Rightarrow>
          (case handle_queue_and_firewall env h0 of
             None \<Rightarrow> None
           | Some (Inl e, h1) \<Rightarrow> Some (Inl e, h1)
           | Some (Inr _, h1) \<Rightarrow>
               Some (bnd (enter_reschedule_credentials env (prefs b)) (\<lambda>_.
                     bnd (after_credentials env) (\<lambda>_.
                     bnd (driver_call env CurrentUrl) (\<lambda>w.
                       if sublist ''loginError=true'' (current_url w)
                       then ret (b\<lparr>active := False\<rparr>)
                       else total (login_summary env b)))) h1)))"

subsection \<open>search_and_book\<close>

text \<open>The first \<open>try\<close> of \<open>search_and_book\<close>: the change of the test centre.\<close>

definition change_centre :: "env \<Rightarrow> string \<Rightarrow> unit cmd" where
  "change_centre env centre_to_search =
     seq (click_id env ''change-test-centre'')
    (seq (random_sleep 2 2)
    (bnd (find_element env (Elem (ById ''test-centres-input''))) (\<lambda>search_box.
     seq (driver_call env (Clear search_box))
    (seq (input_text_box env ''test-centres-input'' centre_to_search)
    (seq (click_id env ''test-centres-submit'')
    (seq (random_sleep 5 2)
    (bnd (find_element env (Elem (ByClassName ''test-centre-results''))) (\<lambda>results_container.
     bnd (find_element env (Inside results_container (ByXPath ''.//a''))) (\<lambda>link.
     seq (click env link)
         (random_sleep 3 2))))))))))"

text \<open>The loop that pages the calendar back to the month of the date found, at most
  \<open>n\<close> times.\<close>

fun show_month :: "env \<Rightarrow> string \<Rightarrow> nat \<Rightarrow> unit cmd" where
  "show_month env target 0 h = (Inr (), h)"
| "show_month env target (Suc n) h =
     bnd (find_element env (Elem (ByClassName ''BookingCalendar-currentMonth''))) (\<lambda>e.
     bnd (driver_call env (GetText e)) (\<lambda>w.
       if target = elem_text w e then ret ()
       else (\<lambda>h1.
         case bnd (find_element env (Elem (ByClassName ''BookingCalendar-nav--prev'')))
                (\<lambda>prev. click env prev) h1 of
           (Inl NoSuchElementException, h2) \<Rightarrow> (Inr (), h2)
         | (Inl x, h2) \<Rightarrow> (Inl x, h2)
         | (Inr _, h2) \<Rightarrow>
             seq (random_sleep (1/10) (1/5)) (show_month env target n) h2))) h"

text \<open>
  \<open>int(s)\<close> on an optional sign and decimal digits, and \<open>s.replace(p, "")\<close> for a
  pattern \<open>p\<close> that is not empty.
\<close>

definition py_int :: "string \<Rightarrow> exn + int" where
  "py_int s =
     (let digits = (if take 1 s = ''-'' \<or> take 1 s = ''+'' then drop 1 s else s)
      in if digits \<noteq> [] \<and> list_all is_digit digits
         then Inr (if take 1 s = ''-'' then - number digits else number digits)
         else Inl ValueError)"

function remove_all :: "string \<Rightarrow> string \<Rightarrow> string" where
  "remove_all p s =
     (if p = [] \<or> s = [] then s
      else if take (length p) s = p then remove_all p (drop (length p) s)
      else hd s # remove_all p (tl s))"
  by pat_completeness auto
termination
  by (relation "measure (\<lambda>(p, s). length s)") auto

definition send_text_available :: "string \<Rightarrow> string \<Rightarrow> string \<Rightarrow> unit cmd" where
  "send_text_available phone_number last_date last_time h =
     (Inr (), h @ [SendText phone_number
                     (''Tests are available on '' @ last_date @ '' at '' @ last_time @ ''.'')])"

definition send_text_test_found ::
  "string \<Rightarrow> string \<Rightarrow> string \<Rightarrow> string \<Rightarrow> bool \<Rightarrow> unit cmd" where
  "send_text_test_found phone_number centre date t_time short_notice h =
     (Inr (), h @ [SendText phone_number
                     (''Test found at '' @ centre @ ''!'' @ [CHR 0x0A] @ ''Date: '' @ date
                      @ '', Time: '' @ t_time @ '', ''
                      @ (if short_notice then ''Short Notice'' else ''Standard'') @ ''.'')])"

definition capture_screenshot :: "string \<Rightarrow> history \<Rightarrow> history" where
  "capture_screenshot label h = h @ [Screenshot label]"

text \<open>The second \<open>try\<close>: the date found is selected and the booking flow is run.\<close>

definition select_and_book ::
  "env \<Rightarrow> library \<Rightarrow> config \<Rightarrow> string \<Rightarrow> string option \<Rightarrow> elem option \<Rightarrow> bool cmd" where
  "select_and_book env lib cfg centre_to_search found_date date_element =
     bnd (lift (case found_date of None \<Rightarrow> Inl TypeError | Some s \<Rightarrow> Inr s)) (\<lambda>found_date_str.
     bnd (lift (strptime_ymd found_date_str)) (\<lambda>target_dt.
     seq (show_month env (month_name lib target_dt) 12)
    (bnd (lift (case date_element of None \<Rightarrow> Inl AttributeError | Some e \<Rightarrow> Inr e)) (\<lambda>date_el.
     seq (click env date_el)
    (bnd (find_element env (Elem (ById (''date-'' @ found_date_str)))) (\<lambda>container.
     bnd (find_element env (Inside container (ByXPath ''.//label''))) (\<lambda>label.
     bnd (driver_call env (GetAttribute label ''for'')) (\<lambda>w.
     bnd (lift (case elem_attr w label ''for'' of
                  None \<Rightarrow> Inl AttributeError | Some v \<Rightarrow> Inr v)) (\<lambda>label_for.
     bnd (lift (py_int (remove_all ''slot-'' label_for))) (\<lambda>epoch_ms.
     bnd (find_element env (Elem (ById label_for))) (\<lambda>slot.
     bnd (driver_call env (GetAttribute slot ''data-short-notice'')) (\<lambda>w'.
       let test_time_str = clock_time lib epoch_ms;
           short_notice = (elem_attr w' slot ''data-short-notice'' = Some ''true'')
       in seq (send_text_available (PHONE_NUMBER cfg) found_date_str test_time_str)
         (seq (send_text_test_found (PHONE_NUMBER cfg) centre_to_search found_date_str
                 test_time_str short_notice)
         (seq (click env label)
         (seq (sleep (Exactly (1/5)))
         (seq (click_id env ''slot-chosen-submit'')
         (seq (sleep (Exactly (2/5)))
         (seq (if short_notice
               then bnd (find_element env
                           (Elem (ByXPath ''(//button[@id=\"slot-warning-continue\"])[2]'')))
                      (\<lambda>e. click env e)
               else click_id env ''slot-warning-continue'')
         (seq (random_sleep 1 1)
              (book_test_flow env short_notice SOLVE_MANUALLY COORD_TOP_RIGHT
                 COORD_BOTTOM_LEFT (AUTO_BOOK_TEST cfg)))))))))))))))))))))"

definition no_tests_text :: string where
  "no_tests_text = ''there are no tests available''"

text \<open>
  \<open>search_and_book\<close>. The function returns the bot; exceptions of the classification
  and of the read of the page leave it.
\<close>

definition search_and_book :: "env \<Rightarrow> library \<Rightarrow> config \<Rightarrow> bot \<Rightarrow> bot cmd" where
  "search_and_book env lib cfg b h =
     (if \<not> active b then (Inr b, h)
      else if center (prefs b) = [] then (Inr b, h)
      else
        (let centres = center (prefs b);
             search_centre_idx = current_centre_index b;
             b1 = b\<lparr>current_centre_index := (current_centre_index b + 1) mod length centres\<rparr>
         in if length centres \<le> search_centre_idx then (Inl IndexError, h)
            else
              (case change_centre env (centres ! search_centre_idx) h of
                 (Inl NoSuchElementException, h1) \<Rightarrow>
                   (case check_firewall_and_queue env h1 of
                      (Inl e, h2) \<Rightarrow> (Inl e, h2)
                    | (Inr status, h2) \<Rightarrow>
                        (Inr (if status \<in> failure_states then b1\<lparr>active := False\<rparr> else b1),
                         h2))
               | (Inl e, h1) \<Rightarrow> (Inr (b1\<lparr>active := False\<rparr>), h1)
               | (Inr _, h1) \<Rightarrow>
                   if \<not> active b1 then (Inr b1, h1)
                   else
                     (case driver_call env PageSource h1 of
                        (Inl e, h2) \<Rightarrow> (Inl e, h2)
                      | (Inr w, h2) \<Rightarrow>
                          if sublist no_tests_text (lower (page_source w)) then (Inr b1, h2)
                          else
                            (case check_firewall_and_queue env h2 of
                               (Inl e, h3) \<Rightarrow> (Inl e, h3)
                             | (Inr status, h3) \<Rightarrow>
                                 if status \<noteq> ''ok'' then (Inr (b1\<lparr>active := False\<rparr>), h3)
                                 else
                                   (case scan_for_preferred_tests env (strptime_long lib)
                                           (before_date (prefs b)) (after_date (prefs b))
                                           (disabled_dates (prefs b))
                                           (current_test_date (prefs b))
                                           (FORMATTED_CURRENT_TEST_DATE cfg) h3 of
                                      ((found, found_date_str, date_el), h4) \<Rightarrow>
                                        if \<not> found then (Inr b1, h4)
                                        else
                                          (case select_and_book env lib cfg
                                                  (centres ! search_centre_idx)
                                                  found_date_str date_el h4 of
                                             (Inl e, h5) \<Rightarrow>
                                               (Inr b1, capture_screenshot ''booking_flow'' h5)
                                           | (Inr success, h5) \<Rightarrow> (Inr b1, h5))))))))"

subsection \<open>One attempt of run_reschedule_flow, inside the opening hours\<close>

definition top_level_handler :: "history \<Rightarrow> history" where
  "top_level_handler h =
     capture_screenshot ''top_level_exception'' h @ [Quit, Sleep (Exactly 30)]"

definition reschedule_attempt ::
  "env \<Rightarrow> library \<Rightarrow> config \<Rightarrow> preferences \<Rightarrow> history \<Rightarrow> history option" where
  "reschedule_attempt env lib cfg p h =
     (case login env (DVSABot p) h of
        None \<Rightarrow> None
      | Some (Inl e, h1) \<Rightarrow> Some (top_level_handler h1)
      | Some (Inr b, h1) \<Rightarrow>
          if active b then
            (case search_and_book env lib cfg b h1 of
               (Inl e, h2) \<Rightarrow> Some (top_level_handler h2)
             | (Inr b', h2) \<Rightarrow> Some (snd (random_sleep DVSA_DELAY 10 h2)))
          else Some (snd (random_sleep DVSA_DELAY 10 h1)))"

subsection \<open>What a command adds to the history\<close>

text \<open>
  \<open>adds_only P f\<close>: running \<open>f\<close> extends the history, and every action it adds satisfies
  \<open>P\<close>. \<open>no_confirm\<close> holds of every action but the lookup and the click of the
  confirm-changes button.
\<close>

definition adds_only :: "(action \<Rightarrow> bool) \<Rightarrow> (history \<Rightarrow> 'r \<times> history) \<Rightarrow> bool" where
  "adds_only P f = (\<forall>h. \<exists>t. snd (f h) = h @ t \<and> list_all P t)"

definition no_confirm :: "action \<Rightarrow> bool" where
  "no_confirm a = (a \<noteq> FindElement confirm_changes \<and> a \<noteq> Click confirm_changes)"

section \<open>Fixtures\<close>

definition blank :: world where
  "blank = \<lparr>current_url = '''', page_source = '''', fails = False,
            has_elem = (\<lambda>_. False), elem_count = (\<lambda>_. 0), elem_text = (\<lambda>_. ''''),
            elem_attr = (\<lambda>_ _. None), calendar = None\<rparr>"

definition firewall_page :: world where
  "firewall_page =
     blank\<lparr>current_url := ''https://driverpracticaltest.dvsa.gov.uk/login'',
           page_source := ''<html>Request unsuccessful. Incapsula incident ID: 0-1</html>''\<rparr>"


definition cell :: "string \<Rightarrow> string \<Rightarrow> day_cell" where
  "cell cls d = \<lparr>class_attr = Some cls, anchor = Some (Some d)\<rparr>"

definition bookable :: string where
  "bookable = ''BookingCalendar-date BookingCalendar-date--bookable''"

definition not_bookable :: string where
  "not_bookable = ''BookingCalendar-date BookingCalendar-date--unavailable''"

definition grid_env :: "day_cell list \<Rightarrow> env" where
  "grid_env g = (\<lambda>_. blank\<lparr>calendar := Some g\<rparr>)"

text \<open>The grid of the end-to-end scenario of the specification.\<close>

definition scenario_grid :: "day_cell list" where
  "scenario_grid = [cell bookable ''2025-03-10'', cell bookable ''2025-03-15'',
                    cell bookable ''2025-03-17'']"

definition no_long_dates :: "string \<Rightarrow> exn + datetime" where
  "no_long_dates s = Inl ValueError"

definition date_2025_06_01 :: datetime where
  "date_2025_06_01 = \<lparr>year = 2025, month = 6, day = 1, hour = 0, minute = 0\<rparr>"

definition date_2025_01_01 :: datetime where
  "date_2025_01_01 = \<lparr>year = 2025, month = 1, day = 1, hour = 0, minute = 0\<rparr>"


text \<open>A grid in which nothing can be chosen: an excluded day, a Saturday, and a day
  marked unavailable.\<close>

definition closed_grid :: "day_cell list" where
  "closed_grid = [cell bookable ''2025-03-10'', cell bookable ''2025-03-15'',
                  cell not_bookable ''2025-03-17'']"


definition taken_grid :: "day_cell list" where
  "taken_grid = [cell not_bookable ''2025-03-17'', cell bookable ''2025-03-18'']"


definition queue_page :: world where
  "queue_page =
     blank\<lparr>current_url := ''https://queue.driverpracticaltest.dvsa.gov.uk/?c=dvsatars'',
           page_source := ''<html>You are now in the queue</html>''\<rparr>"


text \<open>A page that reports the chosen slot as taken, and a page that holds the
  reservation, each with every element the flow looks for.\<close>

definition slot_taken_page :: world where
  "slot_taken_page =
     blank\<lparr>page_source := ''<p>Sorry, the time chosen is no longer available.</p>'',
           has_elem := (\<lambda>_. True)\<rparr>"

definition reserved_page :: world where
  "reserved_page = blank\<lparr>page_source := ''<p>Check your details</p>'', has_elem := (\<lambda>_. True)\<rparr>"

text \<open>An environment in which the first read of the page fails and the second
  attempt finds the slot taken.\<close>

definition taken_on_retry :: env where
  "taken_on_retry h = (if length h = 5 then slot_taken_page\<lparr>fails := True\<rparr> else slot_taken_page)"


text \<open>The reserved page without the confirm-changes button.\<close>

definition no_button_page :: world where
  "no_button_page = reserved_page\<lparr>has_elem := (\<lambda>e. e \<noteq> confirm_changes)\<rparr>"


text \<open>A session on the site's error page: nothing but "Oops" is shown.\<close>

definition oops_page :: world where
  "oops_page = blank\<lparr>current_url := ''https://driverpracticaltest.dvsa.gov.uk/login'',
                     page_source := ''<h1>Oops</h1>''\<rparr>"

definition scenario_preferences :: preferences where
  "scenario_preferences =
     \<lparr>licence = ''AB'', booking = ''12'', current_test_date = ''Yes'', center = [''Leeds''],
      before_date = ''2025-06-01'', after_date = ''2025-01-01'',
      disabled_dates = [''2025-03-10'']\<rparr>"

definition scenario_config :: config where
  "scenario_config =
     \<lparr>PHONE_NUMBER = ''+440000000000'', AUTO_BOOK_TEST = False,
      FORMATTED_CURRENT_TEST_DATE = []\<rparr>"

definition plain_library :: library where
  "plain_library =
     \<lparr>strptime_long = no_long_dates, month_name = (\<lambda>_. ''March''),
      clock_time = (\<lambda>_. ''08:10'')\<rparr>"

text \<open>The calendar page of the scenario, with every element found and a slot label.\<close>

definition calendar_page :: world where
  "calendar_page =
     blank\<lparr>current_url := ''https://driverpracticaltest.dvsa.gov.uk/manage'',
           page_source := ''<table class=BookingCalendar-datesBody></table>'',
           has_elem := (\<lambda>_. True), elem_text := (\<lambda>_. ''March''),
           elem_attr := (\<lambda>_ name. if name = ''for'' then Some ''slot-1742199000000'' else None),
           calendar := Some scenario_grid\<rparr>"


text \<open>The error page with every element of the login form present, and a page that
  classifies as \<open>ok\<close> with every element present.\<close>

definition oops_with_form :: world where
  "oops_with_form = oops_page\<lparr>has_elem := (\<lambda>_. True)\<rparr>"

definition ok_page :: world where
  "ok_page = blank\<lparr>current_url := ''https://driverpracticaltest.dvsa.gov.uk/manage'',
                   page_source := ''<h1>Booking details</h1>'',
                   has_elem := (\<lambda>_. True)\<rparr>"

definition active_bot :: bot where
  "active_bot = (DVSABot scenario_preferences)\<lparr>active := True\<rparr>"

text \<open>The page that reports the slot as taken, without the i-am-candidate button.\<close>

definition taken_without_button :: world where
  "taken_without_button = slot_taken_page\<lparr>has_elem := (\<lambda>e. e \<noteq> i_am_candidate)\<rparr>"

text \<open>An environment in which the browser refuses every click on the i-am-candidate
  button, and one in which every call of the driver raises.\<close>

definition click_refused :: env where
  "click_refused h =
     (if h \<noteq> [] \<and> last h = Click i_am_candidate then reserved_page\<lparr>fails := True\<rparr>
      else reserved_page)"

definition driver_down :: env where
  "driver_down = (\<lambda>_. blank\<lparr>fails := True\<rparr>)"

section \<open>Properties of the classifier\<close>

lemma lower_append: "lower (a @ b) = lower a @ lower b"
  by (simp add: lower_def)

lemma lower_queue_domain: "lower queue_domain = queue_domain"
  unfolding queue_domain_def by code_simp

lemma sublist_lower_queue_domain:
  assumes "sublist queue_domain url"
  shows "sublist queue_domain (lower url)"
proof -
  from assms obtain ps ss where "url = ps @ queue_domain @ ss"
    by (auto simp: sublist_def)
  then have "lower url = lower ps @ queue_domain @ lower ss"
    by (simp add: lower_append lower_queue_domain)
  then show ?thesis
    by (metis sublist_appendI)
qed

text \<open>
  Claim C3. For every URL and page text the classifier returns one state of the fixed
  set, and the state is the one the first matching check of the priority list gives:
  queue URL, then firewall signature, then login banner, then "oops", else ok. A URL
  that contains the queue domain (in any letter case) gives \<open>queue\<close> whatever the page
  holds; behind the queue check, a page with both the firewall signature and the login
  banner gives \<open>firewall\<close>.
\<close>

theorem check_firewall_and_queue_first_match:
  "check_firewall_and_queue_on url src = classifier_spec url src
   \<and> check_firewall_and_queue_on url src \<in> page_states
   \<and> (sublist queue_domain url \<or> sublist queue_domain (lower url)
        \<longrightarrow> check_firewall_and_queue_on url src = ''queue'')
   \<and> (\<not> sublist queue_domain (lower url) \<and> has_firewall_signature (lower src)
        \<and> sublist login_banner (lower src)
        \<longrightarrow> check_firewall_and_queue_on url src = ''firewall'')"
proof -
  have refine: "check_firewall_and_queue_on url src = classifier_spec url src"
    by (simp add: check_firewall_and_queue_on_def classifier_spec_def
        has_firewall_signature_def Let_def)
  have range: "check_firewall_and_queue_on url src \<in> page_states"
    by (simp add: check_firewall_and_queue_on_def page_states_def Let_def)
  have queue: "check_firewall_and_queue_on url src = ''queue''"
    if "sublist queue_domain url \<or> sublist queue_domain (lower url)"
  proof -
    from that have "sublist queue_domain (lower url)"
      using sublist_lower_queue_domain by blast
    then show ?thesis
      by (simp add: check_firewall_and_queue_on_def Let_def)
  qed
  have firewall: "check_firewall_and_queue_on url src = ''firewall''"
    if "\<not> sublist queue_domain (lower url)" "has_firewall_signature (lower src)"
    using that
    by (simp add: check_firewall_and_queue_on_def has_firewall_signature_def Let_def)
  from refine range queue firewall show ?thesis
    by blast
qed

theorem check_firewall_and_queue_first_match_witness:
  "sublist queue_domain (lower ''https://Queue.DriverPracticalTest.dvsa.gov.uk/?c=dvsatars'')
   \<and> check_firewall_and_queue_on ''https://Queue.DriverPracticalTest.dvsa.gov.uk/?c=dvsatars''
        ''Oops. Enter details below to access your booking'' = ''queue''
   \<and> \<not> sublist queue_domain (lower ''https://driverpracticaltest.dvsa.gov.uk/login'')
   \<and> has_firewall_signature
        (lower ''Request unsuccessful. Incident ID: 7. Enter details below to access your booking'')
   \<and> sublist login_banner
        (lower ''Request unsuccessful. Incident ID: 7. Enter details below to access your booking'')
   \<and> check_firewall_and_queue_on ''https://driverpracticaltest.dvsa.gov.uk/login''
        ''Request unsuccessful. Incident ID: 7. Enter details below to access your booking''
       = ''firewall''"
proof -
  have q: "sublist queue_domain
             (lower ''https://Queue.DriverPracticalTest.dvsa.gov.uk/?c=dvsatars'')"
    by code_simp
  have nq: "\<not> sublist queue_domain (lower ''https://driverpracticaltest.dvsa.gov.uk/login'')"
    by code_simp
  have fw: "has_firewall_signature
      (lower ''Request unsuccessful. Incident ID: 7. Enter details below to access your booking'')"
    by code_simp
  have lg: "sublist login_banner
      (lower ''Request unsuccessful. Incident ID: 7. Enter details below to access your booking'')"
    by code_simp
  from q nq fw lg
    check_firewall_and_queue_first_match
      [of "''https://Queue.DriverPracticalTest.dvsa.gov.uk/?c=dvsatars''"
          "''Oops. Enter details below to access your booking''"]
    check_firewall_and_queue_first_match
      [of "''https://driverpracticaltest.dvsa.gov.uk/login''"
          "''Request unsuccessful. Incident ID: 7. Enter details below to access your booking''"]
  show ?thesis
    by blast
qed

section \<open>Properties of the hardware click\<close>

text \<open>
  Claim C10. When \<open>hardware_click_range\<close> is given a bottom-left corner and the top-right
  corner is not strictly greater than it in both coordinates, the answer is False and
  nothing is done: the history of actions is unchanged, so the pointer neither moves
  nor clicks.
\<close>

theorem hardware_click_range_invalid_box:
  assumes "\<not> (x1 < x2 \<and> y1 < y2)"
  shows "hardware_click_range env (x2, y2) (Some (x1, y1)) h = (False, h)"
proof -
  from assms have "x2 \<le> x1 \<or> y2 \<le> y1"
    by auto
  then show ?thesis
    by (simp add: hardware_click_range_def)
qed

theorem hardware_click_range_invalid_box_witness:
  "\<not> ((1020::rat) < 820 \<and> (485::rat) < 420)
   \<and> hardware_click_range (\<lambda>_. blank) (820, 420) (Some (1020, 485)) [] = (False, [])"
proof -
  have box: "\<not> ((1020::rat) < 820 \<and> (485::rat) < 420)"
    by simp
  from box hardware_click_range_invalid_box [OF box, of "\<lambda>_. blank" "[]"]
  show ?thesis
    by simp
qed

section \<open>Properties of the captcha handler\<close>

lemma solve_captcha_exception:
  assumes "fails (env (h @ [SwitchToDefaultContent]))
           \<or> fails (env (h @ [SwitchToDefaultContent, PageSource]))"
  shows "fst (solve_captcha env False tr bl h) = False"
  using assms
  by (auto simp: solve_captcha_def or_false_def bnd_def driver_call_def Let_def)

text \<open>
  Claim C9. With \<open>skip\<close> set, \<open>solve_captcha\<close> sleeps 60 seconds, does nothing else and
  answers False. With \<open>skip\<close> unset it answers True whenever neither of its two driver
  calls raises; when moreover the page read holds no firewall signature, the two driver
  calls are all it does: no pointer action is performed.
\<close>

theorem solve_captcha_result:
  "solve_captcha env True tr bl h = (False, h @ [Sleep (Exactly 60)])
   \<and> (\<not> fails (env (h @ [SwitchToDefaultContent]))
        \<and> \<not> fails (env (h @ [SwitchToDefaultContent, PageSource]))
      \<longrightarrow> fst (solve_captcha env False tr bl h) = True
          \<and> (\<not> has_firewall_signature
                  (lower (page_source (env (h @ [SwitchToDefaultContent, PageSource]))))
               \<longrightarrow> solve_captcha env False tr bl h
                   = (True, h @ [SwitchToDefaultContent, PageSource])))"
proof -
  have manual: "solve_captcha env True tr bl h = (False, h @ [Sleep (Exactly 60)])"
    by (simp add: solve_captcha_def)
  have solved: "fst (solve_captcha env False tr bl h) = True"
    if "\<not> fails (env (h @ [SwitchToDefaultContent]))"
       "\<not> fails (env (h @ [SwitchToDefaultContent, PageSource]))"
    using that
    by (simp add: solve_captcha_def or_false_def bnd_def seq_def ret_def sleep_def
        driver_call_def Let_def split: prod.splits sum.splits)
  have idle: "solve_captcha env False tr bl h = (True, h @ [SwitchToDefaultContent, PageSource])"
    if "\<not> fails (env (h @ [SwitchToDefaultContent]))"
       "\<not> fails (env (h @ [SwitchToDefaultContent, PageSource]))"
       "\<not> has_firewall_signature
            (lower (page_source (env (h @ [SwitchToDefaultContent, PageSource]))))"
    using that
    by (auto simp: solve_captcha_def or_false_def bnd_def ret_def driver_call_def Let_def
        has_firewall_signature_def)
  from manual solved idle show ?thesis
    by blast
qed

theorem solve_captcha_result_witness:
  "solve_captcha (\<lambda>_. blank) True (820, 420) None [] = (False, [Sleep (Exactly 60)])
   \<and> \<not> fails ((\<lambda>_. blank) ([] @ [SwitchToDefaultContent]))
   \<and> \<not> fails ((\<lambda>_. blank) ([] @ [SwitchToDefaultContent, PageSource]))
   \<and> \<not> has_firewall_signature
        (lower (page_source ((\<lambda>_. blank) ([] @ [SwitchToDefaultContent, PageSource]))))
   \<and> solve_captcha (\<lambda>_. blank) False (820, 420) None []
       = (True, [SwitchToDefaultContent, PageSource])"
proof -
  have ok: "\<not> fails blank"
    by (simp add: blank_def)
  have nosig: "\<not> has_firewall_signature (lower (page_source blank))"
    by (simp add: blank_def lower_def has_firewall_signature_def)
  from ok nosig solve_captcha_result [of "\<lambda>_. blank" "(820, 420)" None "[]"]
  show ?thesis
    by simp
qed

section \<open>Properties of the calendar scanner\<close>

subsection \<open>The loop over the day cells\<close>

lemma link_elem_inj: "link_elem i = link_elem j \<longleftrightarrow> i = j"
  by (simp add: link_elem_def day_elem_def)

text \<open>
  One round of the loop: it ends after one of its three calls, or goes on with the
  next cell after the first (cell marked unavailable), the second (no link) or the
  third call (date rejected).
\<close>

lemma scan_days_step:
  "snd (scan_days env mn mx ex fmt i (c # cells) h)
     = h @ [GetAttribute (day_elem i) ''class'']
   \<or> (\<not> unavailable c
       \<and> snd (scan_days env mn mx ex fmt i (c # cells) h)
           = h @ [GetAttribute (day_elem i) ''class'', FindElement (link_elem i)])
   \<or> (\<not> unavailable c \<and> anchor c \<noteq> None
       \<and> snd (scan_days env mn mx ex fmt i (c # cells) h)
           = h @ [GetAttribute (day_elem i) ''class'', FindElement (link_elem i),
                  GetAttribute (link_elem i) ''data-date''])
   \<or> (unavailable c
       \<and> scan_days env mn mx ex fmt i (c # cells) h
           = scan_days env mn mx ex fmt (Suc i) cells
               (h @ [GetAttribute (day_elem i) ''class'']))
   \<or> (\<not> unavailable c \<and> anchor c = None
       \<and> scan_days env mn mx ex fmt i (c # cells) h
           = scan_days env mn mx ex fmt (Suc i) cells
               (h @ [GetAttribute (day_elem i) ''class'', FindElement (link_elem i)]))
   \<or> (\<not> unavailable c \<and> anchor c \<noteq> None
       \<and> scan_days env mn mx ex fmt i (c # cells) h
           = scan_days env mn mx ex fmt (Suc i) cells
               (h @ [GetAttribute (day_elem i) ''class'', FindElement (link_elem i),
                     GetAttribute (link_elem i) ''data-date'']))"
  by (simp add: driver_call_def Let_def split: option.splits sum.splits)

lemma scan_days_none:
  assumes "\<forall>c \<in> set cells. unavailable c \<or> \<not> qualifies mn mx ex fmt c"
  shows "(\<exists>e. fst (scan_days env mn mx ex fmt i cells h) = Inl e)
         \<or> fst (scan_days env mn mx ex fmt i cells h) = Inr not_found"
  using assms
proof (induction cells arbitrary: i h)
  case Nil
  then show ?case by (simp add: not_found_def)
next
  case (Cons c cells)
  then show ?case
    by (auto simp: driver_call_def Let_def qualifies_def link_date_def
        split: option.splits sum.splits)
qed


text \<open>Every date read the loop adds to the history is the read of some cell's link.\<close>

lemma scan_days_date_read_form:
  assumes "a \<in> set (snd (scan_days env mn mx ex fmt i cells h))"
    and "a \<notin> set h" and "is_date_read a"
  shows "\<exists>j. a = GetAttribute (link_elem j) ''data-date''"
  using assms
proof (induction cells arbitrary: i h)
  case Nil
  then show ?case by simp
next
  case (Cons c cells)
  let ?S = "scan_days env mn mx ex fmt i (c # cells) h"
  let ?h1 = "h @ [GetAttribute (day_elem i) ''class'']"
  let ?h2 = "h @ [GetAttribute (day_elem i) ''class'', FindElement (link_elem i)]"
  let ?h3 = "h @ [GetAttribute (day_elem i) ''class'', FindElement (link_elem i),
                  GetAttribute (link_elem i) ''data-date'']"
  have nothere: "a \<notin> set ?h1" "a \<notin> set ?h2"
    using Cons.prems(2,3) by (auto simp: is_date_read_def)
  have here: "\<exists>j. a = GetAttribute (link_elem j) ''data-date''" if "a \<in> set ?h3"
    using that Cons.prems(2,3) by (auto simp: is_date_read_def)
  from scan_days_step [of env mn mx ex fmt i c cells h]
  consider
      (stop1) "snd ?S = ?h1"
    | (stop2) "snd ?S = ?h2"
    | (stop3) "snd ?S = ?h3"
    | (skip) "?S = scan_days env mn mx ex fmt (Suc i) cells ?h1"
    | (nolink) "?S = scan_days env mn mx ex fmt (Suc i) cells ?h2"
    | (reject) "?S = scan_days env mn mx ex fmt (Suc i) cells ?h3"
    by blast
  then show ?case
  proof cases
    case stop1
    with Cons.prems(1) nothere(1) show ?thesis
      by (simp del: scan_days.simps)
  next
    case stop2
    with Cons.prems(1) nothere(2) show ?thesis
      by (simp del: scan_days.simps)
  next
    case stop3
    with Cons.prems(1) here show ?thesis
      by (simp del: scan_days.simps)
  next
    case skip
    with Cons.prems(1) Cons.prems(3) nothere(1) Cons.IH [of "Suc i" ?h1] show ?thesis
      by (simp del: scan_days.simps)
  next
    case nolink
    with Cons.prems(1) Cons.prems(3) nothere(2) Cons.IH [of "Suc i" ?h2] show ?thesis
      by (simp del: scan_days.simps)
  next
    case reject
    show ?thesis
    proof (cases "a \<in> set ?h3")
      case True
      then show ?thesis by (rule here)
    next
      case False
      with reject Cons.prems(1) Cons.prems(3) Cons.IH [of "Suc i" ?h3] show ?thesis
        by (simp del: scan_days.simps)
    qed
  qed
qed

text \<open>The link whose date is read belongs to a cell that is not marked unavailable.\<close>

lemma scan_days_reads:
  assumes "GetAttribute (link_elem j) ''data-date''
           \<in> set (snd (scan_days env mn mx ex fmt i cells h))"
    and "GetAttribute (link_elem j) ''data-date'' \<notin> set h"
  shows "i \<le> j \<and> j < i + length cells \<and> \<not> unavailable (cells ! (j - i))"
  using assms
proof (induction cells arbitrary: i h)
  case Nil
  then show ?case by simp
next
  case (Cons c cells)
  let ?a = "GetAttribute (link_elem j) ''data-date''"
  let ?S = "scan_days env mn mx ex fmt i (c # cells) h"
  let ?h1 = "h @ [GetAttribute (day_elem i) ''class'']"
  let ?h2 = "h @ [GetAttribute (day_elem i) ''class'', FindElement (link_elem i)]"
  let ?h3 = "h @ [GetAttribute (day_elem i) ''class'', FindElement (link_elem i),
                  GetAttribute (link_elem i) ''data-date'']"
  have shift: "i \<le> j \<and> j < i + length (c # cells) \<and> \<not> unavailable ((c # cells) ! (j - i))"
    if "Suc i \<le> j \<and> j < Suc i + length cells \<and> \<not> unavailable (cells ! (j - Suc i))"
    using that by (auto simp: nth_Cons')
  have nothere: "?a \<notin> set ?h1" "?a \<notin> set ?h2"
    using Cons.prems(2) by (auto simp: link_elem_def day_elem_def)
  have other: "?a \<notin> set ?h3" if "j \<noteq> i"
    using that nothere by (simp add: link_elem_inj)
  from scan_days_step [of env mn mx ex fmt i c cells h]
  consider
      (stop1) "snd ?S = ?h1"
    | (stop2) "snd ?S = ?h2"
    | (stop3) "\<not> unavailable c" "snd ?S = ?h3"
    | (skip) "?S = scan_days env mn mx ex fmt (Suc i) cells ?h1"
    | (nolink) "?S = scan_days env mn mx ex fmt (Suc i) cells ?h2"
    | (reject) "\<not> unavailable c" "?S = scan_days env mn mx ex fmt (Suc i) cells ?h3"
    by blast
  then show ?case
  proof cases
    case stop1
    with Cons.prems(1) nothere(1) show ?thesis
      by (simp del: scan_days.simps)
  next
    case stop2
    with Cons.prems(1) nothere(2) show ?thesis
      by (simp del: scan_days.simps)
  next
    case stop3
    show ?thesis
    proof (cases "j = i")
      case True
      with stop3(1) show ?thesis by simp
    next
      case False
      with stop3(2) Cons.prems(1) other show ?thesis
        by (simp del: scan_days.simps)
    qed
  next
    case skip
    with Cons.prems(1) Cons.IH [of "Suc i" ?h1] nothere(1) shift show ?thesis
      by (simp del: scan_days.simps)
  next
    case nolink
    with Cons.prems(1) Cons.IH [of "Suc i" ?h2] nothere(2) shift show ?thesis
      by (simp del: scan_days.simps)
  next
    case reject
    show ?thesis
    proof (cases "j = i")
      case True
      with reject(1) show ?thesis by simp
    next
      case False
      with reject(2) Cons.prems(1) Cons.IH [of "Suc i" ?h3] other shift show ?thesis
        by (simp del: scan_days.simps)
    qed
  qed
qed

text \<open>What the link of an unavailable cell holds does not matter to the loop.\<close>

lemma scan_days_relink:
  "scan_days env mn mx ex fmt i (map (relink f) cells) h
   = scan_days env mn mx ex fmt i cells h"
  by (induction cells arbitrary: i h)
     (auto simp: driver_call_def Let_def relink_def unavailable_def
        split: option.splits sum.splits)

text \<open>The loop asks the environment only whether a call raises.\<close>

lemma scan_days_fails_only:
  assumes "\<forall>h'. fails (env' h') = fails (env h')"
  shows "scan_days env' mn mx ex fmt i cells h = scan_days env mn mx ex fmt i cells h"
  using assms
  by (induction cells arbitrary: i h)
     (auto simp: driver_call_def Let_def split: option.splits sum.splits)

subsection \<open>The function\<close>


lemma scan_body_cases:
  "(\<exists>e. scan_body env sl before after ex cur fmt h = (Inl e, h))
   \<or> (\<exists>e. scan_body env sl before after ex cur fmt h = (Inl e, h @ [FindElement cal_body]))
   \<or> (\<exists>e. scan_body env sl before after ex cur fmt h
           = (Inl e, h @ [FindElement cal_body, FindElements (ByXPath ''.//td'')]))
   \<or> (\<exists>mn mx cells.
        min_date_bound sl cur before = Inr mn
        \<and> parse_or_default after ''2000-01-01'' = Inr mx
        \<and> calendar (env (h @ [FindElement cal_body])) = Some cells
        \<and> scan_body env sl before after ex cur fmt h
            = scan_days env mn mx ex fmt 0 cells
                (h @ [FindElement cal_body, FindElements (ByXPath ''.//td'')]))"
  by (auto simp: scan_body_def bnd_def seq_def lift_def driver_call_def Let_def raise_def
      split: sum.splits option.splits)

lemma scan_result_of_body:
  "fst (scan_for_preferred_tests env sl before after ex cur fmt h)
   = (case fst (scan_body env sl before after ex cur fmt h) of
        Inl e \<Rightarrow> not_found | Inr r \<Rightarrow> r)"
  "snd (scan_for_preferred_tests env sl before after ex cur fmt h)
   = snd (scan_body env sl before after ex cur fmt h)"
  by (auto simp: scan_for_preferred_tests_def split: prod.splits sum.splits exn.splits)

text \<open>
  Claim C8. When the page has no calendar body, and when no day cell that the scan
  looks at qualifies (in particular when no cell at all satisfies the filter), the
  scanner returns the not-found triple \<open>(False, None, None)\<close>. The function returns a
  value in every case: each exception of its body is caught by its handlers.
\<close>

theorem scan_for_preferred_tests_not_found:
  assumes "calendar (env (h @ [FindElement cal_body])) = None
           \<or> (\<exists>cells. calendar (env (h @ [FindElement cal_body])) = Some cells
                \<and> (\<forall>mn mx. min_date_bound sl cur before = Inr mn
                            \<and> parse_or_default after ''2000-01-01'' = Inr mx
                      \<longrightarrow> (\<forall>c \<in> set cells. unavailable c \<or> \<not> qualifies mn mx ex fmt c)))"
  shows "fst (scan_for_preferred_tests env sl before after ex cur fmt h) = (False, None, None)"
proof -
  from scan_body_cases [of env sl before after ex cur fmt h]
  consider
      (raised) e where "fst (scan_body env sl before after ex cur fmt h) = Inl e"
    | (scanned) mn mx cells where
        "min_date_bound sl cur before = Inr mn"
        "parse_or_default after ''2000-01-01'' = Inr mx"
        "calendar (env (h @ [FindElement cal_body])) = Some cells"
        "scan_body env sl before after ex cur fmt h
         = scan_days env mn mx ex fmt 0 cells
             (h @ [FindElement cal_body, FindElements (ByXPath ''.//td'')])"
    by fastforce
  then show ?thesis
  proof cases
    case raised
    then show ?thesis
      by (simp add: scan_result_of_body not_found_def)
  next
    case scanned
    with assms have "\<forall>c \<in> set cells. unavailable c \<or> \<not> qualifies mn mx ex fmt c"
      by auto
      from scan_days_none
           [OF this, of env 0 "h @ [FindElement cal_body, FindElements (ByXPath ''.//td'')]"]
      scanned(4)
    show ?thesis
      by (auto simp: scan_result_of_body not_found_def)
  qed
qed

theorem scan_for_preferred_tests_not_found_witness:
  "calendar ((\<lambda>_. blank) ([] @ [FindElement cal_body])) = None
   \<and> fst (scan_for_preferred_tests (\<lambda>_. blank) no_long_dates ''2025-06-01'' ''2025-01-01''
            [''2025-03-10''] ''Yes'' [] []) = (False, None, None)
   \<and> calendar (grid_env closed_grid ([] @ [FindElement cal_body])) = Some closed_grid
   \<and> list_all (\<lambda>c. unavailable c
                     \<or> \<not> qualifies date_2025_06_01 date_2025_01_01 [''2025-03-10''] [] c)
        closed_grid
   \<and> fst (scan_for_preferred_tests (grid_env closed_grid) no_long_dates ''2025-06-01''
            ''2025-01-01'' [''2025-03-10''] ''Yes'' [] []) = (False, None, None)"
proof -
  have absent: "calendar ((\<lambda>_. blank) ([] @ [FindElement cal_body])) = None"
    by (simp add: blank_def)
  then have hyp1: "calendar ((\<lambda>_. blank) ([] @ [FindElement cal_body])) = None
      \<or> (\<exists>cells. calendar ((\<lambda>_. blank) ([] @ [FindElement cal_body])) = Some cells
           \<and> (\<forall>mn mx. min_date_bound no_long_dates ''Yes'' ''2025-06-01'' = Inr mn
                       \<and> parse_or_default ''2025-01-01'' ''2000-01-01'' = Inr mx
                 \<longrightarrow> (\<forall>c \<in> set cells.
                        unavailable c \<or> \<not> qualifies mn mx [''2025-03-10''] [] c)))"
    by blast
  have present: "calendar (grid_env closed_grid ([] @ [FindElement cal_body])) = Some closed_grid"
    by (simp add: grid_env_def)
  have mn: "min_date_bound no_long_dates ''Yes'' ''2025-06-01'' = Inr date_2025_06_01"
    by code_simp
  have mx: "parse_or_default ''2025-01-01'' ''2000-01-01'' = Inr date_2025_01_01"
    by code_simp
  have none: "list_all (\<lambda>c. unavailable c
                     \<or> \<not> qualifies date_2025_06_01 date_2025_01_01 [''2025-03-10''] [] c)
        closed_grid"
    by code_simp
  from present mn mx none
  have hyp2: "calendar (grid_env closed_grid ([] @ [FindElement cal_body])) = None
      \<or> (\<exists>cells. calendar (grid_env closed_grid ([] @ [FindElement cal_body])) = Some cells
           \<and> (\<forall>mn mx. min_date_bound no_long_dates ''Yes'' ''2025-06-01'' = Inr mn
                       \<and> parse_or_default ''2025-01-01'' ''2000-01-01'' = Inr mx
                 \<longrightarrow> (\<forall>c \<in> set cells.
                        unavailable c \<or> \<not> qualifies mn mx [''2025-03-10''] [] c)))"
    by (simp add: list_all_iff)
  from absent present none hyp1 hyp2
    scan_for_preferred_tests_not_found
      [where env = "\<lambda>_. blank" and h = "[]" and sl = no_long_dates and cur = "''Yes''"
         and before = "''2025-06-01''" and after = "''2025-01-01''"
         and ex = "[''2025-03-10'']" and fmt = "[]"]
    scan_for_preferred_tests_not_found
      [where env = "grid_env closed_grid" and h = "[]" and sl = no_long_dates
         and cur = "''Yes''" and before = "''2025-06-01''" and after = "''2025-01-01''"
         and ex = "[''2025-03-10'']" and fmt = "[]"]
  show ?thesis
    by blast
qed

text \<open>
  Claim C7. The scanner reads the \<open>data-date\<close> attribute only of links of cells whose
  class does not mark them unavailable: every date read it adds to the history is the
  read of the link of such a cell. And what the link of an unavailable cell holds - a
  date, a broken date, no date attribute, or no link at all - changes neither the
  result nor the history, so such a cell cannot make the scan fail.
\<close>

theorem scan_never_reads_unavailable:
  "(a \<in> set (snd (scan_for_preferred_tests env sl before after ex cur fmt h))
      \<and> a \<notin> set h \<and> is_date_read a
    \<longrightarrow> (\<exists>cells j. calendar (env (h @ [FindElement cal_body])) = Some cells
           \<and> j < length cells \<and> a = GetAttribute (link_elem j) ''data-date''
           \<and> \<not> unavailable (cells ! j)))
   \<and> scan_for_preferred_tests
        (\<lambda>h'. (env h')\<lparr>calendar := map_option (map (relink f)) (calendar (env h'))\<rparr>)
        sl before after ex cur fmt h
      = scan_for_preferred_tests env sl before after ex cur fmt h"
proof -
  have reads: "\<exists>cells j. calendar (env (h @ [FindElement cal_body])) = Some cells
           \<and> j < length cells \<and> a = GetAttribute (link_elem j) ''data-date''
           \<and> \<not> unavailable (cells ! j)"
    if a: "a \<in> set (snd (scan_for_preferred_tests env sl before after ex cur fmt h))"
      "a \<notin> set h" "is_date_read a"
  proof -
    let ?h0 = "h @ [FindElement cal_body, FindElements (ByXPath ''.//td'')]"
    have new: "a \<notin> set ?h0" "a \<notin> set (h @ [FindElement cal_body])"
      using a(2,3) by (auto simp: is_date_read_def)
    from scan_body_cases [of env sl before after ex cur fmt h] a(1) a(2) new
    obtain mn mx cells where
      cal: "calendar (env (h @ [FindElement cal_body])) = Some cells"
      and body: "scan_body env sl before after ex cur fmt h = scan_days env mn mx ex fmt 0 cells ?h0"
      by (auto simp: scan_result_of_body)
    from a(1) body have mem: "a \<in> set (snd (scan_days env mn mx ex fmt 0 cells ?h0))"
      by (simp add: scan_result_of_body)
    from scan_days_date_read_form [OF mem new(1) a(3)]
    obtain j where j: "a = GetAttribute (link_elem j) ''data-date''"
      by blast
    from scan_days_reads [of j env mn mx ex fmt 0 cells ?h0] mem new(1) j
    have "j < length cells \<and> \<not> unavailable (cells ! j)"
      by simp
    with cal j show ?thesis
      by blast
  qed
  have same: "scan_body
        (\<lambda>h'. (env h')\<lparr>calendar := map_option (map (relink f)) (calendar (env h'))\<rparr>)
        sl before after ex cur fmt h
      = scan_body env sl before after ex cur fmt h"
  proof -
    let ?env' = "\<lambda>h'. (env h')\<lparr>calendar := map_option (map (relink f)) (calendar (env h'))\<rparr>"
    have loop: "scan_days ?env' mn mx ex fmt 0 (map (relink f) cells) h'
                = scan_days env mn mx ex fmt 0 cells h'" for mn mx cells h'
      using scan_days_fails_only [of ?env' env mn mx ex fmt 0 "map (relink f) cells" h']
      by (simp add: scan_days_relink)
    show ?thesis
      by (auto simp: scan_body_def bnd_def seq_def lift_def driver_call_def Let_def raise_def
          loop split: sum.splits option.splits)
  qed
  then have "scan_for_preferred_tests
        (\<lambda>h'. (env h')\<lparr>calendar := map_option (map (relink f)) (calendar (env h'))\<rparr>)
        sl before after ex cur fmt h
      = scan_for_preferred_tests env sl before after ex cur fmt h"
    by (simp add: scan_for_preferred_tests_def)
  with reads show ?thesis
    by blast
qed


theorem scan_never_reads_unavailable_witness:
  "GetAttribute (link_elem 1) ''data-date''
     \<in> set (snd (scan_for_preferred_tests (grid_env taken_grid) no_long_dates ''2025-06-01''
                   ''2025-01-01'' [''2025-03-10''] ''Yes'' [] []))
   \<and> is_date_read (GetAttribute (link_elem 1) ''data-date'')
   \<and> (\<exists>cells j. calendar (grid_env taken_grid ([] @ [FindElement cal_body])) = Some cells
         \<and> j < length cells
         \<and> GetAttribute (link_elem 1) ''data-date'' = GetAttribute (link_elem j) ''data-date''
         \<and> \<not> unavailable (cells ! j))
   \<and> scan_for_preferred_tests
        (\<lambda>h'. (grid_env taken_grid h')
               \<lparr>calendar := map_option (map (relink (\<lambda>_. None)))
                              (calendar (grid_env taken_grid h'))\<rparr>)
        no_long_dates ''2025-06-01'' ''2025-01-01'' [''2025-03-10''] ''Yes'' [] []
      = scan_for_preferred_tests (grid_env taken_grid) no_long_dates ''2025-06-01''
          ''2025-01-01'' [''2025-03-10''] ''Yes'' [] []"
proof -
  have read: "GetAttribute (link_elem 1) ''data-date''
     \<in> set (snd (scan_for_preferred_tests (grid_env taken_grid) no_long_dates ''2025-06-01''
                   ''2025-01-01'' [''2025-03-10''] ''Yes'' [] []))"
    by code_simp
  have kind: "is_date_read (GetAttribute (link_elem 1) ''data-date'')"
    by (simp add: is_date_read_def)
  from read kind
    scan_never_reads_unavailable
      [of "GetAttribute (link_elem 1) ''data-date''" "grid_env taken_grid" no_long_dates
          "''2025-06-01''" "''2025-01-01''" "[''2025-03-10'']" "''Yes''" "[]" "[]"
          "\<lambda>_. None"]
  show ?thesis
    by simp
qed




section \<open>Properties of the queue and firewall loop\<close>

lemma check_always_firewall:
  assumes "always_firewall env"
  shows "check_firewall_and_queue env h = (Inr ''firewall'', h @ [CurrentUrl, PageSource])"
  using assms
  by (simp add: always_firewall_def check_firewall_and_queue_def bnd_def driver_call_def Let_def
      ret_def check_firewall_and_queue_on_def has_firewall_signature_def)

lemma firewall_branch_always_firewall:
  assumes "always_firewall env"
  shows "\<exists>h'. firewall_branch env h = (Inr (), h')"
proof -
  from assms have up: "\<And>h. \<not> fails (env h)"
    by (simp add: always_firewall_def)
  obtain solved h1 where s: "solve_captcha env SOLVE_MANUALLY COORD_TOP_RIGHT COORD_BOTTOM_LEFT
      (h @ [Sleep (Exactly (1/2)), Sleep (Uniform 0 (5/2))]) = (solved, h1)"
    by (cases "solve_captcha env SOLVE_MANUALLY COORD_TOP_RIGHT COORD_BOTTOM_LEFT
      (h @ [Sleep (Exactly (1/2)), Sleep (Uniform 0 (5/2))])") blast
  show ?thesis
    using s up
    by (simp add: firewall_branch_def seq_def bnd_def driver_call_def Let_def ret_def total_def
        random_sleep_def sleep_def check_always_firewall [OF assms])
qed

lemma queue_loop_never_returns:
  assumes "queue_loop env loop_count h = Some y"
  shows "\<not> (always_firewall env \<and> loop_count < max_queue_checks)"
proof (rule queue_loop.raw_induct
    [where P = "\<lambda>env loop_count h y. \<not> (always_firewall env \<and> loop_count < max_queue_checks)",
      OF _ assms])
  fix loop :: "env \<Rightarrow> nat \<Rightarrow> history \<Rightarrow> ((exn + nat) \<times> history) option"
    and env loop_count h y
  assume IH: "\<And>env loop_count h y. loop env loop_count h = Some y
      \<Longrightarrow> \<not> (always_firewall env \<and> loop_count < max_queue_checks)"
  assume step: "(if loop_count < max_queue_checks then
        (case check_firewall_and_queue env h of
           (Inl e, h1) \<Rightarrow> Some (Inl e, h1)
         | (Inr status, h1) \<Rightarrow>
             if status = ''queue'' then
               (case random_sleep (1/2) (3/2) h1 of
                  (_, h2) \<Rightarrow> loop env (loop_count + 1) h2)
             else if status = ''firewall'' then
               (case firewall_branch env h1 of
                  (Inl e, h2) \<Rightarrow> Some (Inl e, h2)
                | (Inr _, h2) \<Rightarrow> loop env loop_count h2)
             else if status = ''login_required'' then Some (Inr loop_count, h1)
             else if status = ''error'' then Some (Inr loop_count, h1)
             else if status = ''ok'' then Some (Inr loop_count, h1)
             else loop env loop_count h1)
      else Some (Inr loop_count, h)) = Some y"
  show "\<not> (always_firewall env \<and> loop_count < max_queue_checks)"
  proof
    assume a: "always_firewall env \<and> loop_count < max_queue_checks"
    then obtain h' where "firewall_branch env (h @ [CurrentUrl, PageSource]) = (Inr (), h')"
      using firewall_branch_always_firewall by blast
    with a step have "loop env loop_count h' = Some y"
      by (simp add: check_always_firewall)
    from IH [OF this] a show False
      by blast
  qed
qed

text \<open>
  Where the claim holds: an environment that never shows the firewall. Every pass
  then leaves the loop or counts, so the loop returns, with a counter of at most 100.
\<close>

lemma check_firewall_and_queue_cases:
  "(\<exists>e h1. check_firewall_and_queue env h = (Inl e, h1))
   \<or> (\<exists>w1 w2. check_firewall_and_queue env h
        = (Inr (check_firewall_and_queue_on (current_url (env w1)) (page_source (env w2))),
           h @ [CurrentUrl, PageSource]))"
  by (auto simp: check_firewall_and_queue_def bnd_def driver_call_def Let_def ret_def)

lemma check_firewall_and_queue_on_states:
  "check_firewall_and_queue_on url src \<in> page_states"
  by (simp add: check_firewall_and_queue_on_def page_states_def Let_def)

lemma queue_loop_returns_without_firewall:
  assumes "never_firewall env"
  shows "\<exists>r h'. queue_loop env loop_count h = Some (r, h')
           \<and> (\<forall>n. r = Inr n \<longrightarrow> n \<le> max loop_count max_queue_checks)"
proof (induction "max_queue_checks - loop_count" arbitrary: loop_count h)
  case 0
  then show ?case
    by (subst queue_loop.simps) simp
next
  case (Suc k)
  then have lt: "loop_count < max_queue_checks"
    by simp
  from check_firewall_and_queue_cases [of env h]
  consider (raised) e h1 where "check_firewall_and_queue env h = (Inl e, h1)"
    | (status) w1 w2 where "check_firewall_and_queue env h
        = (Inr (check_firewall_and_queue_on (current_url (env w1)) (page_source (env w2))),
           h @ [CurrentUrl, PageSource])"
    by blast
  then show ?case
  proof cases
    case raised
    with lt show ?thesis
      by (subst queue_loop.simps) simp
  next
    case status
    let ?s = "check_firewall_and_queue_on (current_url (env w1)) (page_source (env w2))"
    from assms have nf: "?s \<noteq> ''firewall''"
      by (simp add: never_firewall_def)
    from check_firewall_and_queue_on_states [of "current_url (env w1)" "page_source (env w2)"] nf
    consider (queue) "?s = ''queue''" | (leave) "?s \<in> {''login_required'', ''error'', ''ok''}"
      by (auto simp: page_states_def)
    then show ?thesis
    proof cases
      case queue
      from Suc(2) have "k = max_queue_checks - (loop_count + 1)"
        by simp
      from Suc(1) [OF this]
      obtain r h' where
        "queue_loop env (loop_count + 1)
           (h @ [CurrentUrl, PageSource] @ [Sleep (Exactly (1/2)), Sleep (Uniform 0 (3/2))])
         = Some (r, h')"
        "\<forall>n. r = Inr n \<longrightarrow> n \<le> max (loop_count + 1) max_queue_checks"
        by blast
      with lt status queue show ?thesis
        by (subst queue_loop.simps)
          (auto simp: random_sleep_def seq_def bnd_def sleep_def max_def)
    next
      case leave
      with lt status show ?thesis
        by (subst queue_loop.simps) auto
    qed
  qed
qed

text \<open>
  The all-queue sequence of the specification: exactly 100 passes through the queue
  branch, then the single fallback refresh.
\<close>

lemma check_always_queue:
  assumes "always_queue env"
  shows "check_firewall_and_queue env h = (Inr ''queue'', h @ [CurrentUrl, PageSource])"
  using assms
  by (simp add: always_queue_def check_firewall_and_queue_def bnd_def driver_call_def Let_def
      ret_def check_firewall_and_queue_on_def)

lemma queue_loop_always_queue:
  assumes "always_queue env" and "loop_count \<le> max_queue_checks"
  shows "queue_loop env loop_count h
         = Some (Inr max_queue_checks,
                 h @ concat (replicate (max_queue_checks - loop_count) queue_pass))"
  using assms(2)
proof (induction "max_queue_checks - loop_count" arbitrary: loop_count h)
  case 0
  then show ?case
    by (subst queue_loop.simps) simp
next
  case (Suc k)
  then have lt: "loop_count < max_queue_checks"
    by simp
  from Suc(2) have k: "k = max_queue_checks - (loop_count + 1)"
    by simp
  from lt have "loop_count + 1 \<le> max_queue_checks"
    by simp
  from Suc(1) [OF k this]
  have "queue_loop env (loop_count + 1) (h @ queue_pass)
        = Some (Inr max_queue_checks, (h @ queue_pass) @ concat (replicate k queue_pass))"
    using k by simp
  with lt Suc(2) [symmetric] show ?case
    by (subst queue_loop.simps)
      (simp add: check_always_queue [OF assms(1)] random_sleep_def seq_def bnd_def sleep_def
        queue_pass_def)
qed

lemma handle_queue_and_firewall_always_queue:
  assumes "always_queue env"
  shows "handle_queue_and_firewall env h
         = Some (Inr (), h @ concat (replicate 100 queue_pass) @ [Refresh])"
proof -
  from assms have "\<not> fails (env (h @ concat (replicate 100 queue_pass) @ [Refresh]))"
    by (simp add: always_queue_def)
  with queue_loop_always_queue [OF assms, of 0 h] show ?thesis
    by (simp add: handle_queue_and_firewall_def max_queue_checks_def seq_def bnd_def
        driver_call_def Let_def ret_def)
qed

text \<open>
  Claim C1. The claim does not hold of the code: the firewall branch never advances
  the loop counter, so the ceiling of 100 does not bound a run in which every
  observation is the firewall page. Such a run never leaves the loop: the function has
  no result.
\<close>

theorem handle_queue_and_firewall_firewall_forever:
  assumes "always_firewall env"
  shows "handle_queue_and_firewall env h = None"
proof -
  have "queue_loop env 0 h = None"
  proof (cases "queue_loop env 0 h")
    case None
    then show ?thesis .
  next
    case (Some y)
    from queue_loop_never_returns [OF this] assms show ?thesis
      by (simp add: max_queue_checks_def)
  qed
  then show ?thesis
    by (simp add: handle_queue_and_firewall_def)
qed

theorem handle_queue_and_firewall_firewall_forever_witness:
  "always_firewall (\<lambda>_. firewall_page)
   \<and> handle_queue_and_firewall (\<lambda>_. firewall_page) [] = None"
proof -
  have a: "\<not> fails firewall_page"
    by (simp add: firewall_page_def blank_def)
  have b: "\<not> sublist queue_domain (lower (current_url firewall_page))"
    by code_simp
  have c: "has_firewall_signature (lower (page_source firewall_page))"
    by code_simp
  from a b c have hyp: "always_firewall (\<lambda>_. firewall_page)"
    by (simp add: always_firewall_def)
  from hyp handle_queue_and_firewall_firewall_forever [OF hyp, of "[]"] show ?thesis
    by simp
qed

section \<open>Properties of the booking finalizer\<close>

text \<open>When the attempts before it all went on, the loop continues from the start of
  the next attempt.\<close>

lemma booking_loop_from_attempt_start:
  assumes "attempt_start env sm tr bl k clicked h = Some (clicked', h')"
  shows "booking_loop env sm tr bl (k + n) clicked h = booking_loop env sm tr bl n clicked' h'"
  using assms
proof (induction k arbitrary: clicked h)
  case 0
  then show ?case by simp
next
  case (Suc k)
  then show ?case
    by (auto split: prod.splits attempt_end.splits sum.splits)
qed

lemma booking_attempt_slot_taken:
  assumes "click_candidate env clicked (h @ [Sleep (Exactly (3/10))]) = (Inr (), h1)"
    and "read_page env h1 = (Inr w, h2)"
    and "sublist slot_taken_text (lower (page_source w))"
  shows "booking_attempt env sm tr bl clicked h = ((SlotTaken, True), h2)"
  using assms by (simp add: booking_attempt_def Let_def)

text \<open>
  Claim C5, as amended. Take any attempt of the four: the attempts before it all went
  on to the next one, and this one reaches its check of the page, that is, the click
  on the i-am-candidate button (if still due) and the read of the page both return. If
  the page read there holds "the time chosen is no longer available" (in any letter
  case), the loop ends with \<open>test_taken\<close> set and \<open>book_test_flow\<close> returns False; the
  history ends with that read of the page, so no further attempt and no other action
  follows.
\<close>

theorem book_test_flow_slot_taken:
  assumes "k < booking_attempts"
    and "attempt_start env sm tr bl k False h = Some (clicked, hk)"
    and "click_candidate env clicked (hk @ [Sleep (Exactly (3/10))]) = (Inr (), h1)"
    and "read_page env h1 = (Inr w, h2)"
    and "sublist slot_taken_text (lower (page_source w))"
  shows "booking_loop env sm tr bl booking_attempts False h = (Inr (True, False), h2)
         \<and> book_test_flow env short_notice sm tr bl auto_book_test h = (Inr False, h2)"
proof -
  from assms(1) obtain n where n: "booking_attempts = k + Suc n"
    by (metis add_Suc_right less_imp_Suc_add)
  from booking_attempt_slot_taken [OF assms(3-5)]
  have "booking_loop env sm tr bl (Suc n) clicked hk = (Inr (True, False), h2)"
    by simp
  with booking_loop_from_attempt_start [OF assms(2), of "Suc n"] n
  have loop: "booking_loop env sm tr bl booking_attempts False h = (Inr (True, False), h2)"
    by (simp del: booking_loop.simps)
  then show ?thesis
    by (simp add: book_test_flow_def)
qed

theorem book_test_flow_slot_taken_witness:
  "(1::nat) < booking_attempts
   \<and> attempt_start taken_on_retry False COORD_TOP_RIGHT COORD_BOTTOM_LEFT 1 False []
       = Some (True, [Sleep (Exactly (3 / 10)), FindElement i_am_candidate,
                      Click i_am_candidate, SwitchToDefaultContent, FindElement main_iframe,
                      SwitchToDefaultContent, Sleep (Exactly 1), FindElement main_iframe,
                      SwitchToFrame main_iframe, PageSource])
   \<and> sublist slot_taken_text (lower (page_source slot_taken_page))
   \<and> book_test_flow taken_on_retry False False COORD_TOP_RIGHT COORD_BOTTOM_LEFT True []
       = (Inr False,
          [Sleep (Exactly (3 / 10)), FindElement i_am_candidate,
           Click i_am_candidate, SwitchToDefaultContent, FindElement main_iframe,
           SwitchToDefaultContent, Sleep (Exactly 1), FindElement main_iframe,
           SwitchToFrame main_iframe, PageSource,
           Sleep (Exactly (3 / 10)), SwitchToDefaultContent, FindElement main_iframe,
           SwitchToFrame main_iframe, PageSource])"
proof -
  let ?hk = "[Sleep (Exactly (3 / 10)), FindElement i_am_candidate,
              Click i_am_candidate, SwitchToDefaultContent, FindElement main_iframe,
              SwitchToDefaultContent, Sleep (Exactly 1), FindElement main_iframe,
              SwitchToFrame main_iframe, PageSource]"
  let ?h2 = "?hk @ [Sleep (Exactly (3 / 10)), SwitchToDefaultContent, FindElement main_iframe,
                    SwitchToFrame main_iframe, PageSource]"
  have k: "(1::nat) < booking_attempts"
    by (simp add: booking_attempts_def)
  have start: "attempt_start taken_on_retry False COORD_TOP_RIGHT COORD_BOTTOM_LEFT 1 False []
       = Some (True, ?hk)"
    by code_simp
  have cl: "click_candidate taken_on_retry True (?hk @ [Sleep (Exactly (3/10))])
            = (Inr (), ?hk @ [Sleep (Exactly (3/10))])"
    by (simp add: click_candidate_def ret_def)
  have rd: "read_page taken_on_retry (?hk @ [Sleep (Exactly (3/10))]) = (Inr slot_taken_page, ?h2)"
    by (simp add: read_page_def enter_main_frame_def on_no_such_element_def find_element_def
        seq_def bnd_def ret_def driver_call_def Let_def taken_on_retry_def slot_taken_page_def
        blank_def main_iframe_def)
  have phrase: "sublist slot_taken_text (lower (page_source slot_taken_page))"
    by code_simp
  from k start phrase
    book_test_flow_slot_taken [OF k start cl rd phrase, of False True]
  show ?thesis
    by simp
qed

text \<open>
  The claim as stated fails when the attempt does not reach its check of the page. On
  a page that holds "the time chosen is no longer available" and has no
  i-am-candidate button, the lookup of the button raises NoSuchElementException at the
  first attempt; the loop ends at once, but with success: with the auto-book flag
  unset the function returns True, and with the flag set it goes on to click
  confirm-changes and returns True.
\<close>

theorem book_test_flow_slot_taken_counterexample:
  "sublist slot_taken_text (lower (page_source taken_without_button))
   \<and> book_test_flow (\<lambda>_. taken_without_button) False False COORD_TOP_RIGHT COORD_BOTTOM_LEFT
        False []
     = (Inr True, [Sleep (Exactly (3 / 10)), FindElement i_am_candidate])
   \<and> book_test_flow (\<lambda>_. taken_without_button) False False COORD_TOP_RIGHT COORD_BOTTOM_LEFT
        True []
     = (Inr True, [Sleep (Exactly (3 / 10)), FindElement i_am_candidate,
                   FindElement confirm_changes, Click confirm_changes, Sleep (Exactly 1),
                   CurrentUrl, PageSource])"
proof -
  have a: "sublist slot_taken_text (lower (page_source taken_without_button))"
    by code_simp
  have b: "book_test_flow (\<lambda>_. taken_without_button) False False COORD_TOP_RIGHT
             COORD_BOTTOM_LEFT False []
     = (Inr True, [Sleep (Exactly (3 / 10)), FindElement i_am_candidate])"
    by code_simp
  have c: "book_test_flow (\<lambda>_. taken_without_button) False False COORD_TOP_RIGHT
             COORD_BOTTOM_LEFT True []
     = (Inr True, [Sleep (Exactly (3 / 10)), FindElement i_am_candidate,
                   FindElement confirm_changes, Click confirm_changes, Sleep (Exactly 1),
                   CurrentUrl, PageSource])"
    by code_simp
  from a b c show ?thesis
    by blast
qed

subsection \<open>The actions a command adds\<close>

named_theorems adds_intros

lemma adds_onlyD:
  assumes "adds_only P f" and "f h = (r, h')"
  shows "\<exists>t. h' = h @ t \<and> list_all P t"
  using assms by (auto simp: adds_only_def dest: spec [of _ h])

lemma adds_only_ret [adds_intros]: "adds_only P (ret v)"
  by (simp add: adds_only_def ret_def)

lemma adds_only_raise [adds_intros]: "adds_only P (raise e)"
  by (simp add: adds_only_def raise_def)

lemma adds_only_lift [adds_intros]: "adds_only P (lift r)"
  by (simp add: adds_only_def lift_def)

lemma adds_only_sleep [adds_intros]: "P (Sleep d) \<Longrightarrow> adds_only P (sleep d)"
  by (simp add: adds_only_def sleep_def)

lemma adds_only_driver_call [adds_intros]: "P a \<Longrightarrow> adds_only P (driver_call env a)"
  by (simp add: adds_only_def driver_call_def Let_def)

lemma adds_only_pointer_call [adds_intros]: "P a \<Longrightarrow> adds_only P (pointer_call env a)"
  by (simp add: adds_only_def pointer_call_def Let_def)

lemma adds_only_then [adds_intros]:
  assumes "adds_only P f" and "\<And>r. adds_only P (k r)"
  shows "adds_only P (\<lambda>h. case f h of (r, h') \<Rightarrow> k r h')"
  unfolding adds_only_def
proof
  fix h
  obtain r h' where f: "f h = (r, h')"
    by (cases "f h") blast
  from adds_onlyD [OF assms(1) f] obtain t where t: "h' = h @ t" "list_all P t"
    by blast
  obtain r' h'' where k: "k r h' = (r', h'')"
    by (cases "k r h'") blast
  from adds_onlyD [OF assms(2) k] obtain t' where t': "h'' = h' @ t'" "list_all P t'"
    by blast
  from f k t t' show "\<exists>t. snd (case f h of (r, h') \<Rightarrow> k r h') = h @ t \<and> list_all P t"
    by simp
qed

lemma adds_only_bnd [adds_intros]:
  assumes "adds_only P m" and "\<And>v. adds_only P (k v)"
  shows "adds_only P (bnd m k)"
proof -
  have "bnd m k = (\<lambda>h. case m h of (r, h') \<Rightarrow> (case r of Inl e \<Rightarrow> raise e | Inr v \<Rightarrow> k v) h')"
    by (auto simp: bnd_def raise_def fun_eq_iff split: prod.splits sum.splits)
  moreover have "adds_only P (case r of Inl e \<Rightarrow> raise e | Inr v \<Rightarrow> k v)" for r
    using assms(2) by (cases r) (simp_all add: adds_only_raise)
  from adds_only_then [OF assms(1), of "\<lambda>r. case r of Inl e \<Rightarrow> raise e | Inr v \<Rightarrow> k v", OF this]
  have "adds_only P
          (\<lambda>h. case m h of (r, h') \<Rightarrow> (case r of Inl e \<Rightarrow> raise e | Inr v \<Rightarrow> k v) h')" .
  ultimately show ?thesis
    by simp
qed

lemma adds_only_seq [adds_intros]:
  assumes "adds_only P m" and "adds_only P k"
  shows "adds_only P (seq m k)"
  using assms by (simp add: seq_def adds_only_bnd)

lemma adds_only_if [adds_intros]:
  assumes "adds_only P f" and "adds_only P g"
  shows "adds_only P (if b then f else g)"
  using assms by simp

lemma adds_only_on_no_such_element [adds_intros]:
  assumes "adds_only P m" and "adds_only P handler"
  shows "adds_only P (on_no_such_element m handler)"
proof -
  have "on_no_such_element m handler
        = (\<lambda>h. case m h of (r, h') \<Rightarrow>
                 (case r of Inl NoSuchElementException \<Rightarrow> handler
                          | Inl e \<Rightarrow> raise e | Inr v \<Rightarrow> ret v) h')"
    by (auto simp: on_no_such_element_def raise_def ret_def fun_eq_iff
        split: prod.splits sum.splits exn.splits)
  moreover have "adds_only P (case r of Inl NoSuchElementException \<Rightarrow> handler
                          | Inl e \<Rightarrow> raise e | Inr v \<Rightarrow> ret v)" for r
    using assms(2) by (auto simp: adds_only_raise adds_only_ret split: sum.splits exn.splits)
  from adds_only_then [OF assms(1),
      of "\<lambda>r. case r of Inl NoSuchElementException \<Rightarrow> handler
                          | Inl e \<Rightarrow> raise e | Inr v \<Rightarrow> ret v", OF this]
  have "adds_only P
          (\<lambda>h. case m h of (r, h') \<Rightarrow>
                 (case r of Inl NoSuchElementException \<Rightarrow> handler
                          | Inl e \<Rightarrow> raise e | Inr v \<Rightarrow> ret v) h')" .
  ultimately show ?thesis
    by simp
qed

lemma adds_only_or_false [adds_intros]:
  assumes "adds_only P m"
  shows "adds_only P (or_false m)"
  unfolding adds_only_def
proof
  fix h
  obtain r h' where m: "m h = (r, h')"
    by (cases "m h") blast
  from adds_onlyD [OF assms m] m
  show "\<exists>t. snd (or_false m h) = h @ t \<and> list_all P t"
    by (cases r) (simp_all add: or_false_def)
qed

lemma adds_only_total [adds_intros]:
  assumes "adds_only P f"
  shows "adds_only P (total f)"
  unfolding adds_only_def
proof
  fix h
  obtain r h' where f: "f h = (r, h')"
    by (cases "f h") blast
  from adds_onlyD [OF assms f] f
  show "\<exists>t. snd (total f h) = h @ t \<and> list_all P t"
    by (simp add: total_def)
qed

lemma hardware_click_range_no_confirm [adds_intros]:
  "adds_only no_confirm (hardware_click_range env tr bl)"
proof -
  have "adds_only no_confirm (perform_click env x y)" for x y
    unfolding perform_click_def by (intro adds_intros) (simp_all add: no_confirm_def)
  then have click: "adds_only no_confirm (or_false (perform_click env x y))" for x y
    by (rule adds_only_or_false)
  have idle: "adds_only no_confirm (\<lambda>h. (False, h))"
    by (simp add: adds_only_def)
  show ?thesis
  proof (cases bl)
    case None
    then have "hardware_click_range env tr bl
               = or_false (perform_click env (Exactly (fst tr)) (Exactly (snd tr)))"
      by (simp add: hardware_click_range_def fun_eq_iff)
    with click show ?thesis
      by simp
  next
    case (Some corner)
    obtain x1 y1 x2 y2 where c: "corner = (x1, y1)" "tr = (x2, y2)"
      by (cases corner, cases tr) blast
    show ?thesis
    proof (cases "x2 \<le> x1 \<or> y2 \<le> y1")
      case True
      with Some c have eq: "hardware_click_range env tr bl = (\<lambda>h. (False, h))"
        by (simp add: hardware_click_range_def fun_eq_iff)
      show ?thesis
        unfolding eq by (rule idle)
    next
      case False
      with Some c have "hardware_click_range env tr bl
                 = or_false (perform_click env (Uniform x1 x2) (Uniform y1 y2))"
        by (simp add: hardware_click_range_def fun_eq_iff)
      with click show ?thesis
        by simp
    qed
  qed
qed

lemma solve_captcha_no_confirm [adds_intros]:
  "adds_only no_confirm (solve_captcha env skip tr bl)"
proof (cases skip)
  case True
  then have "solve_captcha env skip tr bl = (\<lambda>h. (False, h @ [Sleep (Exactly 60)]))"
    by (simp add: solve_captcha_def fun_eq_iff)
  then show ?thesis
    by (simp add: adds_only_def no_confirm_def)
next
  case False
  have "adds_only no_confirm
          (or_false
            (bnd (driver_call env SwitchToDefaultContent) (\<lambda>_.
             bnd (driver_call env PageSource) (\<lambda>w.
               if sublist ''request unsuccessful'' (lower (page_source w))
                     \<and> sublist ''incident id'' (lower (page_source w))
               then (\<lambda>h1. case hardware_click_range env tr bl h1 of
                      (_, h2) \<Rightarrow> seq (sleep (Uniform (3/2) (5/2))) (ret True) h2)
               else ret True))))"
    by (intro adds_intros) (simp_all add: no_confirm_def)
  moreover from False have "solve_captcha env skip tr bl
        = or_false
            (bnd (driver_call env SwitchToDefaultContent) (\<lambda>_.
             bnd (driver_call env PageSource) (\<lambda>w.
               if sublist ''request unsuccessful'' (lower (page_source w))
                     \<and> sublist ''incident id'' (lower (page_source w))
               then (\<lambda>h1. case hardware_click_range env tr bl h1 of
                      (_, h2) \<Rightarrow> seq (sleep (Uniform (3/2) (5/2))) (ret True) h2)
               else ret True)))"
    by (simp add: solve_captcha_def fun_eq_iff Let_def)
  ultimately show ?thesis
    by simp
qed

lemma find_element_adds [adds_intros]:
  "P (FindElement e) \<Longrightarrow> adds_only P (find_element env e)"
  unfolding find_element_def by (intro adds_intros)

text \<open>A lookup that succeeds returns the element that was looked up.\<close>

lemma find_element_bnd: "bnd (find_element env e) k = seq (find_element env e) (k e)"
  by (auto simp: find_element_def bnd_def seq_def ret_def raise_def driver_call_def Let_def
      fun_eq_iff)

lemma click_adds [adds_intros]: "P (Click e) \<Longrightarrow> adds_only P (click env e)"
  unfolding click_def by (intro adds_intros)

lemma random_sleep_adds [adds_intros]:
  "P (Sleep (Exactly a)) \<Longrightarrow> P (Sleep (Uniform 0 b)) \<Longrightarrow> adds_only P (random_sleep a b)"
  unfolding random_sleep_def by (intro adds_intros)

lemma click_candidate_no_confirm [adds_intros]:
  "adds_only no_confirm (click_candidate env clicked)"
  unfolding click_candidate_def find_element_bnd
  by (intro adds_intros) (simp_all add: no_confirm_def i_am_candidate_def confirm_changes_def)

lemma read_page_no_confirm [adds_intros]: "adds_only no_confirm (read_page env)"
  unfolding read_page_def enter_main_frame_def find_element_bnd
  by (intro adds_intros) (simp_all add: no_confirm_def main_iframe_def confirm_changes_def)

lemma recover_no_confirm [adds_intros]: "adds_only no_confirm (recover env)"
  unfolding recover_def find_element_bnd
  by (intro adds_intros) (simp_all add: no_confirm_def main_iframe_def confirm_changes_def)

lemma booking_attempt_no_confirm:
  assumes "booking_attempt env sm tr bl clicked h = (r, h')"
  shows "\<exists>t. h' = h @ t \<and> list_all no_confirm t"
proof -
  have s: "no_confirm (Sleep (Exactly (3/10)))"
    by (simp add: no_confirm_def)
  from assms s show ?thesis
    by (auto simp: booking_attempt_def Let_def
        split: prod.splits sum.splits exn.splits if_splits
        dest!: adds_onlyD [OF click_candidate_no_confirm] adds_onlyD [OF read_page_no_confirm]
               adds_onlyD [OF solve_captcha_no_confirm])
qed

lemma booking_loop_no_confirm:
  assumes "booking_loop env sm tr bl n clicked h = (r, h')"
  shows "\<exists>t. h' = h @ t \<and> list_all no_confirm t"
  using assms
proof (induction n arbitrary: clicked h)
  case 0
  then show ?case by simp
next
  case (Suc n)
  obtain e c h1 where a: "booking_attempt env sm tr bl clicked h = ((e, c), h1)"
    by (cases "booking_attempt env sm tr bl clicked h") auto
  from booking_attempt_no_confirm [OF a] obtain t1 where t1: "h1 = h @ t1" "list_all no_confirm t1"
    by blast
  show ?case
  proof (cases e)
    case NextAttempt
    obtain r2 h2 where rc: "recover env h1 = (r2, h2)"
      by (cases "recover env h1") blast
    from adds_onlyD [OF recover_no_confirm rc] obtain t2
      where t2: "h2 = h1 @ t2" "list_all no_confirm t2"
      by blast
    show ?thesis
    proof (cases r2)
      case (Inl x)
      with Suc.prems a NextAttempt rc t1 t2 show ?thesis
        by auto
    next
      case (Inr u)
      with Suc.prems a NextAttempt rc have "booking_loop env sm tr bl n c h2 = (r, h')"
        by simp
      from Suc.IH [OF this] t1 t2 show ?thesis
        by auto
    qed
  qed (use Suc.prems a t1 in auto)
qed

lemma check_firewall_and_queue_adds [adds_intros]:
  "P CurrentUrl \<Longrightarrow> P PageSource \<Longrightarrow> adds_only P (check_firewall_and_queue env)"
  unfolding check_firewall_and_queue_def by (intro adds_intros)

text \<open>The final confirmation: the lookup of the button, its click, and the rest, which
  touches the button no more.\<close>

lemma final_confirmation_steps:
  "\<exists>rest. adds_only no_confirm rest
      \<and> final_confirmation env sm tr bl
          = seq (find_element env confirm_changes) (seq (click env confirm_changes) rest)"
proof -
  let ?rest = "seq (sleep (Exactly 1))
    (bnd (check_firewall_and_queue env) (\<lambda>page_status.
       if page_status = ''firewall'' then
         seq (random_sleep 40 4)
        (seq (driver_call env Refresh)
        (bnd (check_firewall_and_queue env) (\<lambda>status.
           if status = ''firewall'' then
             seq (total (solve_captcha env sm tr bl))
            (bnd (driver_call env PageSource) (\<lambda>w.
               if sublist ''imperva'' (lower (page_source w)) then ret False else ret True))
           else ret True)))
       else ret True))"
  have "adds_only no_confirm ?rest"
    by (intro adds_intros) (simp_all add: no_confirm_def)
  moreover have "final_confirmation env sm tr bl
          = seq (find_element env confirm_changes) (seq (click env confirm_changes) ?rest)"
    by (simp add: final_confirmation_def find_element_bnd)
  ultimately show ?thesis
    by blast
qed

lemma final_confirmation_history:
  "\<exists>t. snd (or_false (final_confirmation env sm tr bl) h)
        = h @ FindElement confirm_changes # t
      \<and> (\<not> fails (env (h @ [FindElement confirm_changes]))
           \<and> has_elem (env (h @ [FindElement confirm_changes])) confirm_changes
          \<longrightarrow> (\<exists>t'. t = Click confirm_changes # t'))"
proof -
  from final_confirmation_steps [of env sm tr bl] obtain rest where
    rest: "adds_only no_confirm rest"
    and eq: "final_confirmation env sm tr bl
             = seq (find_element env confirm_changes) (seq (click env confirm_changes) rest)"
    by blast
  let ?h1 = "h @ [FindElement confirm_changes]"
  let ?h2 = "h @ [FindElement confirm_changes, Click confirm_changes]"
  show ?thesis
  proof (cases "\<not> fails (env ?h1) \<and> has_elem (env ?h1) confirm_changes")
    case found: True
    show ?thesis
    proof (cases "fails (env ?h2)")
      case True
      with found show ?thesis
        by (simp add: eq or_false_def seq_def bnd_def find_element_def click_def driver_call_def
            Let_def ret_def)
    next
      case False
      obtain r h' where r: "rest ?h2 = (r, h')"
        by (cases "rest ?h2") blast
      from adds_onlyD [OF rest r] obtain t where "h' = ?h2 @ t"
        by blast
      with found False r show ?thesis
        by (cases r)
          (simp_all add: eq or_false_def seq_def bnd_def find_element_def click_def
            driver_call_def Let_def ret_def)
    qed
  next
    case False
    then show ?thesis
      by (auto simp: eq or_false_def seq_def bnd_def find_element_def driver_call_def
          Let_def ret_def raise_def)
  qed
qed

text \<open>
  Claim C6, as amended. \<open>book_test_flow\<close> clicks confirm-changes only if the auto-book
  flag is set. When the reservation steps succeeded (the loop ended with success and
  the slot not taken): with the flag unset it does nothing more and returns True, the
  reservation being held for manual completion; with the flag set its next action is
  the lookup of confirm-changes, followed by the click when the button is found, and
  when the lookup raises or the button is absent it returns False with no click. When
  the slot was taken, or every attempt failed, it returns False at once whatever the
  flag; and an exception that escapes the loop escapes the function.
\<close>

theorem book_test_flow_confirmation:
  "(Click confirm_changes \<in> set (snd (book_test_flow env sn sm tr bl auto_book_test h))
      \<and> Click confirm_changes \<notin> set h \<longrightarrow> auto_book_test)
   \<and> (booking_loop env sm tr bl booking_attempts False h = (Inr (False, True), hl) \<longrightarrow>
        (\<not> auto_book_test \<longrightarrow> book_test_flow env sn sm tr bl auto_book_test h = (Inr True, hl))
        \<and> (auto_book_test \<longrightarrow>
             (\<exists>t. snd (book_test_flow env sn sm tr bl auto_book_test h)
                   = hl @ FindElement confirm_changes # t
                \<and> (\<not> fails (env (hl @ [FindElement confirm_changes]))
                     \<and> has_elem (env (hl @ [FindElement confirm_changes])) confirm_changes
                    \<longrightarrow> (\<exists>t'. t = Click confirm_changes # t')))
             \<and> (fails (env (hl @ [FindElement confirm_changes]))
                  \<or> \<not> has_elem (env (hl @ [FindElement confirm_changes])) confirm_changes
                 \<longrightarrow> book_test_flow env sn sm tr bl auto_book_test h
                       = (Inr False, hl @ [FindElement confirm_changes]))))
   \<and> (booking_loop env sm tr bl booking_attempts False h = (Inr (test_taken, success), hl)
        \<and> (test_taken \<or> \<not> success)
      \<longrightarrow> book_test_flow env sn sm tr bl auto_book_test h = (Inr False, hl))
   \<and> (booking_loop env sm tr bl booking_attempts False h = (Inl e, hl)
      \<longrightarrow> book_test_flow env sn sm tr bl auto_book_test h = (Inl e, hl))"
proof -
  have only_if: "auto_book_test"
    if click: "Click confirm_changes \<in> set (snd (book_test_flow env sn sm tr bl auto_book_test h))"
      and new: "Click confirm_changes \<notin> set h"
  proof (rule ccontr)
    assume off: "\<not> auto_book_test"
    obtain r h' where loop: "booking_loop env sm tr bl booking_attempts False h = (r, h')"
      by (cases "booking_loop env sm tr bl booking_attempts False h") blast
    from off loop have "snd (book_test_flow env sn sm tr bl auto_book_test h) = h'"
      by (auto simp: book_test_flow_def split: sum.splits prod.splits)
    moreover from booking_loop_no_confirm [OF loop] obtain t
      where "h' = h @ t" "list_all no_confirm t"
      by blast
    ultimately show False
      using click new by (auto simp: list_all_iff no_confirm_def)
  qed
  have held: "book_test_flow env sn sm tr bl auto_book_test h = (Inr True, hl)"
    if "booking_loop env sm tr bl booking_attempts False h = (Inr (False, True), hl)"
      and "\<not> auto_book_test"
    using that by (simp add: book_test_flow_def)
  have submit: "\<exists>t. snd (book_test_flow env sn sm tr bl auto_book_test h)
                   = hl @ FindElement confirm_changes # t
                \<and> (\<not> fails (env (hl @ [FindElement confirm_changes]))
                     \<and> has_elem (env (hl @ [FindElement confirm_changes])) confirm_changes
                    \<longrightarrow> (\<exists>t'. t = Click confirm_changes # t'))"
    if loop: "booking_loop env sm tr bl booking_attempts False h = (Inr (False, True), hl)"
      and on: "auto_book_test"
  proof -
    from loop on
    have "snd (book_test_flow env sn sm tr bl auto_book_test h)
          = snd (or_false (final_confirmation env sm tr bl) hl)"
      by (simp add: book_test_flow_def total_def split: prod.splits)
    with final_confirmation_history [of env sm tr bl hl] show ?thesis
      by simp
  qed
  have absent: "book_test_flow env sn sm tr bl auto_book_test h
                = (Inr False, hl @ [FindElement confirm_changes])"
    if loop: "booking_loop env sm tr bl booking_attempts False h = (Inr (False, True), hl)"
      and on: "auto_book_test"
      and no: "fails (env (hl @ [FindElement confirm_changes]))
               \<or> \<not> has_elem (env (hl @ [FindElement confirm_changes])) confirm_changes"
  proof -
    from no have "or_false (final_confirmation env sm tr bl) hl
                  = (False, hl @ [FindElement confirm_changes])"
      by (auto simp: or_false_def final_confirmation_def find_element_def bnd_def
          driver_call_def Let_def raise_def)
    with loop on show ?thesis
      by (simp add: book_test_flow_def total_def)
  qed
  have failed: "book_test_flow env sn sm tr bl auto_book_test h = (Inr False, hl)"
    if "booking_loop env sm tr bl booking_attempts False h = (Inr (test_taken, success), hl)"
      and "test_taken \<or> \<not> success"
    using that by (auto simp: book_test_flow_def)
  have escaped: "book_test_flow env sn sm tr bl auto_book_test h = (Inl e, hl)"
    if "booking_loop env sm tr bl booking_attempts False h = (Inl e, hl)"
    using that by (simp add: book_test_flow_def)
  from only_if held submit absent failed escaped show ?thesis
    by blast
qed

theorem book_test_flow_confirmation_witness:
  "booking_loop (\<lambda>_. reserved_page) False COORD_TOP_RIGHT COORD_BOTTOM_LEFT booking_attempts False []
     = (Inr (False, True),
        [Sleep (Exactly (3 / 10)), FindElement i_am_candidate, Click i_am_candidate,
         SwitchToDefaultContent, FindElement main_iframe, SwitchToFrame main_iframe,
         PageSource, SwitchToDefaultContent, PageSource])
   \<and> book_test_flow (\<lambda>_. reserved_page) False False COORD_TOP_RIGHT COORD_BOTTOM_LEFT False []
     = (Inr True,
        [Sleep (Exactly (3 / 10)), FindElement i_am_candidate, Click i_am_candidate,
         SwitchToDefaultContent, FindElement main_iframe, SwitchToFrame main_iframe,
         PageSource, SwitchToDefaultContent, PageSource])
   \<and> Click confirm_changes
       \<in> set (snd (book_test_flow (\<lambda>_. reserved_page) False False COORD_TOP_RIGHT
                     COORD_BOTTOM_LEFT True []))
   \<and> book_test_flow (\<lambda>_. no_button_page) False False COORD_TOP_RIGHT COORD_BOTTOM_LEFT True []
     = (Inr False,
        [Sleep (Exactly (3 / 10)), FindElement i_am_candidate, Click i_am_candidate,
         SwitchToDefaultContent, FindElement main_iframe, SwitchToFrame main_iframe,
         PageSource, SwitchToDefaultContent, PageSource, FindElement confirm_changes])
   \<and> booking_loop (\<lambda>_. slot_taken_page) False COORD_TOP_RIGHT COORD_BOTTOM_LEFT
        booking_attempts False []
     = (Inr (True, False),
        [Sleep (Exactly (3 / 10)), FindElement i_am_candidate, Click i_am_candidate,
         SwitchToDefaultContent, FindElement main_iframe, SwitchToFrame main_iframe,
         PageSource])
   \<and> book_test_flow (\<lambda>_. slot_taken_page) False False COORD_TOP_RIGHT COORD_BOTTOM_LEFT True []
     = (Inr False,
        [Sleep (Exactly (3 / 10)), FindElement i_am_candidate, Click i_am_candidate,
         SwitchToDefaultContent, FindElement main_iframe, SwitchToFrame main_iframe,
         PageSource])
   \<and> fst (booking_loop click_refused False COORD_TOP_RIGHT COORD_BOTTOM_LEFT
             booking_attempts False []) = Inr (False, False)
   \<and> fst (book_test_flow click_refused False False COORD_TOP_RIGHT COORD_BOTTOM_LEFT True [])
     = Inr False
   \<and> book_test_flow driver_down False False COORD_TOP_RIGHT COORD_BOTTOM_LEFT True []
     = (Inl WebDriverException,
        [Sleep (Exactly (3 / 10)), FindElement i_am_candidate, SwitchToDefaultContent])"
proof -
  let ?h1 = "[Sleep (Exactly (3 / 10)), FindElement i_am_candidate, Click i_am_candidate,
         SwitchToDefaultContent, FindElement main_iframe, SwitchToFrame main_iframe,
         PageSource, SwitchToDefaultContent, PageSource]"
  let ?hs = "[Sleep (Exactly (3 / 10)), FindElement i_am_candidate, Click i_am_candidate,
         SwitchToDefaultContent, FindElement main_iframe, SwitchToFrame main_iframe,
         PageSource]"
  let ?round = "[Sleep (Exactly (3 / 10)), FindElement i_am_candidate, Click i_am_candidate,
         SwitchToDefaultContent, Sleep (Exactly 1), FindElement main_iframe,
         SwitchToFrame main_iframe, PageSource]"
  let ?hf = "?round @ ?round @ ?round @ ?round"
  let ?hd = "[Sleep (Exactly (3 / 10)), FindElement i_am_candidate, SwitchToDefaultContent]"
  have loop: "booking_loop (\<lambda>_. reserved_page) False COORD_TOP_RIGHT COORD_BOTTOM_LEFT
                booking_attempts False [] = (Inr (False, True), ?h1)"
    by code_simp
  have button: "\<not> fails reserved_page \<and> has_elem reserved_page confirm_changes"
    by (simp add: reserved_page_def blank_def)
  have loop_nb: "booking_loop (\<lambda>_. no_button_page) False COORD_TOP_RIGHT COORD_BOTTOM_LEFT
                booking_attempts False [] = (Inr (False, True), ?h1)"
    by code_simp
  have no_button: "\<not> has_elem no_button_page confirm_changes"
    by (simp add: no_button_page_def)
  have loop_taken: "booking_loop (\<lambda>_. slot_taken_page) False COORD_TOP_RIGHT COORD_BOTTOM_LEFT
                booking_attempts False [] = (Inr (True, False), ?hs)"
    by code_simp
  have loop_refused: "booking_loop click_refused False COORD_TOP_RIGHT COORD_BOTTOM_LEFT
                booking_attempts False [] = (Inr (False, False), ?hf)"
    by code_simp
  have loop_down: "booking_loop driver_down False COORD_TOP_RIGHT COORD_BOTTOM_LEFT
                booking_attempts False [] = (Inl WebDriverException, ?hd)"
    by code_simp
  from loop
    book_test_flow_confirmation
      [where env = "\<lambda>_. reserved_page" and sm = False and tr = COORD_TOP_RIGHT
         and bl = COORD_BOTTOM_LEFT and auto_book_test = False and h = "[]" and hl = ?h1
         and sn = False]
  have held: "book_test_flow (\<lambda>_. reserved_page) False False COORD_TOP_RIGHT COORD_BOTTOM_LEFT
                False [] = (Inr True, ?h1)"
    by simp
  from loop button
    book_test_flow_confirmation
      [where env = "\<lambda>_. reserved_page" and sm = False and tr = COORD_TOP_RIGHT
         and bl = COORD_BOTTOM_LEFT and auto_book_test = True and h = "[]" and hl = ?h1
         and sn = False, THEN conjunct2, THEN conjunct1]
  obtain t where "snd (book_test_flow (\<lambda>_. reserved_page) False False COORD_TOP_RIGHT
                     COORD_BOTTOM_LEFT True [])
                  = ?h1 @ FindElement confirm_changes # Click confirm_changes # t"
    by auto
  then have clicked: "Click confirm_changes
       \<in> set (snd (book_test_flow (\<lambda>_. reserved_page) False False COORD_TOP_RIGHT
                     COORD_BOTTOM_LEFT True []))"
    by simp
  from loop_nb no_button
    book_test_flow_confirmation
      [where env = "\<lambda>_. no_button_page" and sm = False and tr = COORD_TOP_RIGHT
         and bl = COORD_BOTTOM_LEFT and auto_book_test = True and h = "[]" and hl = ?h1
         and sn = False]
  have absent: "book_test_flow (\<lambda>_. no_button_page) False False COORD_TOP_RIGHT
                  COORD_BOTTOM_LEFT True [] = (Inr False, ?h1 @ [FindElement confirm_changes])"
    by blast
  then have absent':
    "book_test_flow (\<lambda>_. no_button_page) False False COORD_TOP_RIGHT COORD_BOTTOM_LEFT True []
     = (Inr False,
        [Sleep (Exactly (3 / 10)), FindElement i_am_candidate, Click i_am_candidate,
         SwitchToDefaultContent, FindElement main_iframe, SwitchToFrame main_iframe,
         PageSource, SwitchToDefaultContent, PageSource, FindElement confirm_changes])"
    by (simp only: append.simps)
  from loop_taken
    book_test_flow_confirmation
      [where env = "\<lambda>_. slot_taken_page" and sm = False and tr = COORD_TOP_RIGHT
         and bl = COORD_BOTTOM_LEFT and auto_book_test = True and h = "[]" and hl = ?hs
         and sn = False and test_taken = True and success = False]
  have taken: "book_test_flow (\<lambda>_. slot_taken_page) False False COORD_TOP_RIGHT
                 COORD_BOTTOM_LEFT True [] = (Inr False, ?hs)"
    by simp
  from loop_refused
    book_test_flow_confirmation
      [where env = click_refused and sm = False and tr = COORD_TOP_RIGHT
         and bl = COORD_BOTTOM_LEFT and auto_book_test = True and h = "[]" and hl = ?hf
         and sn = False and test_taken = False and success = False]
  have refused: "book_test_flow click_refused False False COORD_TOP_RIGHT
                   COORD_BOTTOM_LEFT True [] = (Inr False, ?hf)"
    by simp
  from loop_down
    book_test_flow_confirmation
      [where env = driver_down and sm = False and tr = COORD_TOP_RIGHT
         and bl = COORD_BOTTOM_LEFT and auto_book_test = True and h = "[]" and hl = ?hd
         and sn = False and e = WebDriverException]
  have down: "book_test_flow driver_down False False COORD_TOP_RIGHT
                COORD_BOTTOM_LEFT True [] = (Inl WebDriverException, ?hd)"
    by simp
  from loop_refused
  have all_failed: "fst (booking_loop click_refused False COORD_TOP_RIGHT COORD_BOTTOM_LEFT
             booking_attempts False []) = Inr (False, False)"
    by (simp only: fst_conv)
  from refused
  have given_up: "fst (book_test_flow click_refused False False COORD_TOP_RIGHT
                         COORD_BOTTOM_LEFT True []) = Inr False"
    by (simp only: fst_conv)
  from loop held clicked absent' loop_taken taken all_failed given_up down show ?thesis
    by blast
qed

text \<open>
  The claim as stated fails in its "if" direction and in its last part. When the
  booking is reserved but the page has no confirm-changes button, the flag being set
  leads to no click: the function gives up and returns False. And when every attempt
  fails, here because the browser refuses each click on the i-am-candidate button, the
  flag being unset does not lead to success: the function returns False.
\<close>

theorem book_test_flow_confirmation_counterexample:
  "fst (booking_loop (\<lambda>_. no_button_page) False COORD_TOP_RIGHT COORD_BOTTOM_LEFT
          booking_attempts False []) = Inr (False, True)
   \<and> Click confirm_changes
     \<notin> set (snd (book_test_flow (\<lambda>_. no_button_page) False False COORD_TOP_RIGHT
                   COORD_BOTTOM_LEFT True []))
   \<and> fst (book_test_flow (\<lambda>_. no_button_page) False False COORD_TOP_RIGHT
            COORD_BOTTOM_LEFT True []) = Inr False
   \<and> fst (book_test_flow click_refused False False COORD_TOP_RIGHT
            COORD_BOTTOM_LEFT False []) = Inr False"
proof -
  have a: "fst (booking_loop (\<lambda>_. no_button_page) False COORD_TOP_RIGHT COORD_BOTTOM_LEFT
          booking_attempts False []) = Inr (False, True)"
    by code_simp
  have b: "Click confirm_changes
     \<notin> set (snd (book_test_flow (\<lambda>_. no_button_page) False False COORD_TOP_RIGHT
                   COORD_BOTTOM_LEFT True []))"
    by code_simp
  have c: "fst (book_test_flow (\<lambda>_. no_button_page) False False COORD_TOP_RIGHT
            COORD_BOTTOM_LEFT True []) = Inr False"
    by code_simp
  have d: "fst (book_test_flow click_refused False False COORD_TOP_RIGHT
            COORD_BOTTOM_LEFT False []) = Inr False"
    by code_simp
  from a b c d show ?thesis
    by blast
qed

section \<open>Properties of the session\<close>

lemma search_and_book_inactive:
  assumes "\<not> active b"
  shows "search_and_book env lib cfg b h = (Inr b, h)"
  using assms by (simp add: search_and_book_def)

lemma login_summary_active:
  assumes "active (fst (login_summary env b h))"
  shows "\<exists>centres h1 status.
           open_calendar env (prefs b) h = (Inr (Some centres), h1)
           \<and> check_firewall_and_queue env h1 = (Inr status, snd (login_summary env b h))
           \<and> status \<notin> failure_states"
  using assms
  by (auto simp: login_summary_def Let_def split: prod.splits sum.splits option.splits)

lemma not_failure_is_ok:
  assumes "check_firewall_and_queue env h = (Inr status, h')" and "status \<notin> failure_states"
  shows "status = ''ok''"
proof -
  from check_firewall_and_queue_cases [of env h] assms(1)
  obtain w1 w2 where
    "status = check_firewall_and_queue_on (current_url (env w1)) (page_source (env w2))"
    by auto
  with check_firewall_and_queue_on_states [of "current_url (env w1)" "page_source (env w2)"]
    assms(2)
  show ?thesis
    by (auto simp: page_states_def failure_states_def)
qed

lemma login_active:
  assumes "login env b h = Some (Inr b', h')" and "active b'"
  shows "\<exists>h1. check_firewall_and_queue env h1 = (Inr ''ok'', h')"
proof -
  from assms obtain h0 where "login_summary env b h0 = (b', h')"
    by (auto simp: login_def bnd_def ret_def total_def
        split: prod.splits sum.splits option.splits if_splits)
  with assms(2) login_summary_active [of env b h0]
  obtain h1 status where "check_firewall_and_queue env h1 = (Inr status, h')"
    "status \<notin> failure_states"
    by auto
  with not_failure_is_ok show ?thesis
    by blast
qed

lemma search_and_book_not_ok:
  assumes "active b" and "current_centre_index b < length (center (prefs b))"
    and "change_centre env (center (prefs b) ! current_centre_index b) h = (Inr (), h1)"
    and "driver_call env PageSource h1 = (Inr w, h2)"
    and "\<not> sublist no_tests_text (lower (page_source w))"
    and "check_firewall_and_queue env h2 = (Inr status, h3)"
    and "status \<noteq> ''ok''"
  shows "search_and_book env lib cfg b h
         = (Inr (b\<lparr>current_centre_index :=
                       (current_centre_index b + 1) mod length (center (prefs b)),
                   active := False\<rparr>), h3)"
  using assms by (auto simp: search_and_book_def Let_def)

lemma search_and_book_not_found_failure:
  assumes "active b" and "current_centre_index b < length (center (prefs b))"
    and "change_centre env (center (prefs b) ! current_centre_index b) h
         = (Inl NoSuchElementException, h1)"
    and "check_firewall_and_queue env h1 = (Inr status, h2)"
    and "status \<in> failure_states"
  shows "search_and_book env lib cfg b h
         = (Inr (b\<lparr>current_centre_index :=
                       (current_centre_index b + 1) mod length (center (prefs b)),
                   active := False\<rparr>), h2)"
  using assms by (auto simp: search_and_book_def Let_def)

lemma reschedule_attempt_inactive:
  assumes "login env (DVSABot p) h = Some (Inr b, h1)" and "\<not> active b"
  shows "reschedule_attempt env lib cfg p h
         = Some (h1 @ [Sleep (Exactly 60), Sleep (Uniform 0 10)])"
  using assms
  by (simp add: reschedule_attempt_def random_sleep_def seq_def bnd_def sleep_def DVSA_DELAY_def)

text \<open>
  Claim C2, as amended. The flag and the page interactions of a session are tied as
  follows. (1) \<open>login\<close> returns an active bot only when the last thing it did was a
  classification with result \<open>ok\<close>: a final classification of firewall, queue, error or
  login_required leaves the bot inactive. (2) When \<open>login\<close> returns an inactive bot, the
  attempt performs no further action but its closing sleep. (3) \<open>search_and_book\<close> on an
  inactive bot does nothing. (4) In \<open>search_and_book\<close>, a classification other than \<open>ok\<close>
  after the change of centre, and a classification in a failure state after the centre
  could not be changed, clear the flag and end the function at once: the history ends
  with that classification.
\<close>

theorem session_active_flag:
  "(login env b h = Some (Inr b', h') \<and> active b'
      \<longrightarrow> (\<exists>h1. check_firewall_and_queue env h1 = (Inr ''ok'', h')))
   \<and> (login env (DVSABot p) h = Some (Inr b', h') \<and> \<not> active b'
      \<longrightarrow> reschedule_attempt env lib cfg p h
          = Some (h' @ [Sleep (Exactly 60), Sleep (Uniform 0 10)]))
   \<and> (\<not> active b \<longrightarrow> search_and_book env lib cfg b h = (Inr b, h))
   \<and> (active b \<and> current_centre_index b < length (center (prefs b))
       \<and> change_centre env (center (prefs b) ! current_centre_index b) h = (Inr (), h1)
       \<and> driver_call env PageSource h1 = (Inr w, h2)
       \<and> \<not> sublist no_tests_text (lower (page_source w))
       \<and> check_firewall_and_queue env h2 = (Inr status, h3) \<and> status \<noteq> ''ok''
      \<longrightarrow> search_and_book env lib cfg b h
          = (Inr (b\<lparr>current_centre_index :=
                        (current_centre_index b + 1) mod length (center (prefs b)),
                    active := False\<rparr>), h3))
   \<and> (active b \<and> current_centre_index b < length (center (prefs b))
       \<and> change_centre env (center (prefs b) ! current_centre_index b) h
           = (Inl NoSuchElementException, h1)
       \<and> check_firewall_and_queue env h1 = (Inr status, h2) \<and> status \<in> failure_states
      \<longrightarrow> search_and_book env lib cfg b h
          = (Inr (b\<lparr>current_centre_index :=
                        (current_centre_index b + 1) mod length (center (prefs b)),
                    active := False\<rparr>), h2))"
  using login_active [of env b h b' h']
    reschedule_attempt_inactive [of env p h b' h' lib cfg]
    search_and_book_inactive [of b env lib cfg h]
    search_and_book_not_ok [of b env h h1 w h2 status h3 lib cfg]
    search_and_book_not_found_failure [of b env h h1 status h2 lib cfg]
  by blast

lemma check_constant_page:
  assumes "\<not> fails page"
  shows "check_firewall_and_queue (\<lambda>_. page) h
         = (Inr (check_firewall_and_queue_on (current_url page) (page_source page)),
            h @ [CurrentUrl, PageSource])"
  using assms
  by (simp add: check_firewall_and_queue_def bnd_def driver_call_def Let_def ret_def)

theorem session_active_flag_witness:
  "(\<exists>b' h' h1. login (\<lambda>_. ok_page) (DVSABot scenario_preferences) [] = Some (Inr b', h')
       \<and> active b' \<and> check_firewall_and_queue (\<lambda>_. ok_page) h1 = (Inr ''ok'', h'))
   \<and> (\<exists>b' h'. login (\<lambda>_. oops_page) (DVSABot scenario_preferences) [] = Some (Inr b', h')
       \<and> \<not> active b'
       \<and> reschedule_attempt (\<lambda>_. oops_page) plain_library scenario_config
            scenario_preferences [] = Some (h' @ [Sleep (Exactly 60), Sleep (Uniform 0 10)]))
   \<and> \<not> active (DVSABot scenario_preferences)
   \<and> search_and_book (\<lambda>_. ok_page) plain_library scenario_config
        (DVSABot scenario_preferences) [] = (Inr (DVSABot scenario_preferences), [])
   \<and> active active_bot
   \<and> fst (change_centre (\<lambda>_. oops_with_form) ''Leeds'' []) = Inr ()
   \<and> search_and_book (\<lambda>_. oops_with_form) plain_library scenario_config active_bot []
       = (Inr (active_bot\<lparr>current_centre_index := 0, active := False\<rparr>),
          snd (change_centre (\<lambda>_. oops_with_form) ''Leeds'' [])
          @ [PageSource, CurrentUrl, PageSource])
   \<and> change_centre (\<lambda>_. oops_page) ''Leeds'' []
       = (Inl NoSuchElementException, [FindElement (Elem (ById ''change-test-centre''))])
   \<and> search_and_book (\<lambda>_. oops_page) plain_library scenario_config active_bot []
       = (Inr (active_bot\<lparr>current_centre_index := 0, active := False\<rparr>),
          [FindElement (Elem (ById ''change-test-centre'')), CurrentUrl, PageSource])"
proof -
  \<comment> \<open>a login that ends active\<close>
  have "case login (\<lambda>_. ok_page) (DVSABot scenario_preferences) [] of
          Some (Inr b', h') \<Rightarrow> active b' | _ \<Rightarrow> False"
    by code_simp
  then obtain b1 g1 where
    l1: "login (\<lambda>_. ok_page) (DVSABot scenario_preferences) [] = Some (Inr b1, g1)"
    and a1: "active b1"
    by (auto split: option.splits prod.splits sum.splits)
  from l1 a1
    session_active_flag [where env = "\<lambda>_. ok_page" and b = "DVSABot scenario_preferences"
      and h = "[]" and b' = b1 and h' = g1]
  have w1: "\<exists>b' h' h1. login (\<lambda>_. ok_page) (DVSABot scenario_preferences) [] = Some (Inr b', h')
       \<and> active b' \<and> check_firewall_and_queue (\<lambda>_. ok_page) h1 = (Inr ''ok'', h')"
    by blast
  \<comment> \<open>a login that ends inactive\<close>
  have "case login (\<lambda>_. oops_page) (DVSABot scenario_preferences) [] of
          Some (Inr b', h') \<Rightarrow> \<not> active b' | _ \<Rightarrow> False"
    by code_simp
  then obtain b2 g2 where
    l2: "login (\<lambda>_. oops_page) (DVSABot scenario_preferences) [] = Some (Inr b2, g2)"
    and a2: "\<not> active b2"
    by (auto split: option.splits prod.splits sum.splits)
  from l2 a2
    session_active_flag [where env = "\<lambda>_. oops_page" and p = scenario_preferences
      and h = "[]" and b' = b2 and h' = g2 and lib = plain_library and cfg = scenario_config]
  have w2: "\<exists>b' h'. login (\<lambda>_. oops_page) (DVSABot scenario_preferences) [] = Some (Inr b', h')
       \<and> \<not> active b'
       \<and> reschedule_attempt (\<lambda>_. oops_page) plain_library scenario_config
            scenario_preferences [] = Some (h' @ [Sleep (Exactly 60), Sleep (Uniform 0 10)])"
    by blast
  \<comment> \<open>an inactive bot\<close>
  have off: "\<not> active (DVSABot scenario_preferences)"
    by (simp add: DVSABot_def)
  from off
    session_active_flag [where env = "\<lambda>_. ok_page" and b = "DVSABot scenario_preferences"
      and h = "[]" and lib = plain_library and cfg = scenario_config]
  have w3: "search_and_book (\<lambda>_. ok_page) plain_library scenario_config
        (DVSABot scenario_preferences) [] = (Inr (DVSABot scenario_preferences), [])"
    by blast
  \<comment> \<open>the error page after the change of centre\<close>
  have on: "active active_bot"
    by (simp add: active_bot_def)
  have idx: "current_centre_index active_bot < length (center (prefs active_bot))"
    by (simp add: active_bot_def DVSABot_def scenario_preferences_def)
  have centre: "center (prefs active_bot) ! current_centre_index active_bot = ''Leeds''"
    by (simp add: active_bot_def DVSABot_def scenario_preferences_def)
  have next_idx: "(current_centre_index active_bot + 1) mod length (center (prefs active_bot)) = 0"
    by (simp add: active_bot_def DVSABot_def scenario_preferences_def)
  have changed: "fst (change_centre (\<lambda>_. oops_with_form) ''Leeds'' []) = Inr ()"
    by code_simp
  let ?h1 = "snd (change_centre (\<lambda>_. oops_with_form) ''Leeds'' [])"
  from changed have c4: "change_centre (\<lambda>_. oops_with_form) ''Leeds'' [] = (Inr (), ?h1)"
    by (simp add: prod_eq_iff)
  have up: "\<not> fails oops_with_form" "\<not> fails oops_page"
    by (simp_all add: oops_with_form_def oops_page_def blank_def)
  from up(1) have page: "driver_call (\<lambda>_. oops_with_form) PageSource ?h1
                   = (Inr oops_with_form, ?h1 @ [PageSource])"
    by (simp add: driver_call_def Let_def)
  have tests: "\<not> sublist no_tests_text (lower (page_source oops_with_form))"
    by code_simp
  have "check_firewall_and_queue_on (current_url oops_with_form) (page_source oops_with_form)
        = ''error''"
    by code_simp
  with check_constant_page [OF up(1), of "?h1 @ [PageSource]"]
  have status: "check_firewall_and_queue (\<lambda>_. oops_with_form) (?h1 @ [PageSource])
                = (Inr ''error'', ?h1 @ [PageSource, CurrentUrl, PageSource])"
    by simp
  have bad: "''error'' \<noteq> ''ok''" "''error'' \<in> failure_states"
    by (simp_all add: failure_states_def)
  from on idx c4 page tests status bad(1)
    session_active_flag [where env = "\<lambda>_. oops_with_form" and b = active_bot and h = "[]"
      and ?h1.0 = ?h1 and w = oops_with_form and ?h2.0 = "?h1 @ [PageSource]"
      and status = "''error''" and ?h3.0 = "?h1 @ [PageSource, CurrentUrl, PageSource]"
      and lib = plain_library and cfg = scenario_config]
  have w4: "search_and_book (\<lambda>_. oops_with_form) plain_library scenario_config active_bot []
       = (Inr (active_bot\<lparr>current_centre_index := 0, active := False\<rparr>),
          ?h1 @ [PageSource, CurrentUrl, PageSource])"
    by (simp only: centre next_idx) blast
  \<comment> \<open>the error page when the centre cannot be changed\<close>
  have c5: "change_centre (\<lambda>_. oops_page) ''Leeds'' []
       = (Inl NoSuchElementException, [FindElement (Elem (ById ''change-test-centre''))])"
    by code_simp
  have "check_firewall_and_queue_on (current_url oops_page) (page_source oops_page) = ''error''"
    by code_simp
  with check_constant_page [OF up(2), of "[FindElement (Elem (ById ''change-test-centre''))]"]
  have status5: "check_firewall_and_queue (\<lambda>_. oops_page)
                   [FindElement (Elem (ById ''change-test-centre''))]
                = (Inr ''error'',
                   [FindElement (Elem (ById ''change-test-centre'')), CurrentUrl, PageSource])"
    by simp
  from on idx c5 status5 bad(2)
    session_active_flag [where env = "\<lambda>_. oops_page" and b = active_bot and h = "[]"
      and ?h1.0 = "[FindElement (Elem (ById ''change-test-centre''))]"
      and status = "''error''"
      and ?h2.0 = "[FindElement (Elem (ById ''change-test-centre'')), CurrentUrl, PageSource]"
      and lib = plain_library and cfg = scenario_config]
  have w5: "search_and_book (\<lambda>_. oops_page) plain_library scenario_config active_bot []
       = (Inr (active_bot\<lparr>current_centre_index := 0, active := False\<rparr>),
          [FindElement (Elem (ById ''change-test-centre'')), CurrentUrl, PageSource])"
    by (simp only: centre next_idx)
  from w1 w2 off w3 on changed w4 c5 w5 show ?thesis
    by blast
qed

text \<open>
  The claim as stated fails at the start of every session. A new bot is inactive, and
  \<open>login\<close> interacts with the page all the same; and when the first classification, in
  the queue loop, is the error state, the flag is not touched and \<open>login\<close> goes on to
  look up the credential boxes and the login button, to classify twice more and to
  look for the booking summary.
\<close>

theorem session_active_flag_counterexample:
  "\<not> active (DVSABot scenario_preferences)
   \<and> check_firewall_and_queue (\<lambda>_. oops_page) [Get DVSA_QUEUE_URL]
       = (Inr ''error'', [Get DVSA_QUEUE_URL, CurrentUrl, PageSource])
   \<and> login (\<lambda>_. oops_page) (DVSABot scenario_preferences) []
       = Some (Inr (DVSABot scenario_preferences),
               [Get DVSA_QUEUE_URL, CurrentUrl, PageSource,
                FindElement (Elem (ById ''driving-licence-number'')),
                FindElement (Elem (ById ''application-reference-number'')),
                Sleep (Exactly 1), Sleep (Uniform 0 1),
                FindElement (Elem (ById ''booking-login'')), CurrentUrl, PageSource,
                CurrentUrl, FindElements (ByClassName ''contents''), PageSource,
                FindElement (Elem (ById ''date-time-change''))])"
proof -
  have a: "\<not> active (DVSABot scenario_preferences)"
    by (simp add: DVSABot_def)
  have b: "check_firewall_and_queue (\<lambda>_. oops_page) [Get DVSA_QUEUE_URL]
       = (Inr ''error'', [Get DVSA_QUEUE_URL, CurrentUrl, PageSource])"
    by code_simp
  have c: "login (\<lambda>_. oops_page) (DVSABot scenario_preferences) []
       = Some (Inr (DVSABot scenario_preferences),
               [Get DVSA_QUEUE_URL, CurrentUrl, PageSource,
                FindElement (Elem (ById ''driving-licence-number'')),
                FindElement (Elem (ById ''application-reference-number'')),
                Sleep (Exactly 1), Sleep (Uniform 0 1),
                FindElement (Elem (ById ''booking-login'')), CurrentUrl, PageSource,
                CurrentUrl, FindElements (ByClassName ''contents''), PageSource,
                FindElement (Elem (ById ''date-time-change''))])"
    by code_simp
  from a b c show ?thesis
    by blast
qed

end
